theory Spec2Isabelle
  imports Complex_Main "HOL-Library.AList" "HOL-Library.Log_Nat"
begin

section \<open>JavaScript numbers and strings\<close>

text \<open>
  A JavaScript number is an IEEE 754 binary64 value. The model keeps the three special
  values (\<open>NaN\<close>, \<open>+Infinity\<close>, \<open>-Infinity\<close>) and takes a finite double as the real number
  it denotes. Every arithmetic operation on finite values computes the exact real result
  and rounds it to the nearest double, ties to even, with gradual underflow and with
  overflow to an infinity (\<open>roundDouble\<close>); a decimal literal of the source denotes the
  double nearest to it (\<open>jsLiteral\<close>). The arithmetic on the special values follows
  IEEE 754: \<open>NaN\<close> is absorbing, every comparison with \<open>NaN\<close> is false, \<open>\<infinity> - \<infinity>\<close> and
  \<open>0 \<times> \<infinity>\<close> are \<open>NaN\<close>. The sign of zero is not modelled.
\<close>

datatype jsnum = Fin real | PInf | NInf | NaN

text \<open>
  \<open>pow2 e\<close> is the power of two of an integer exponent \<open>e\<close>; \<open>floorLog2 x\<close> is the
  exponent \<open>e\<close> with \<open>pow2 e \<le> x < pow2 (e + 1)\<close> of a positive \<open>x\<close>, computed from the bit
  length of an integer; \<open>roundEven\<close> rounds a real to the nearest integer, a tie to the
  even one.
\<close>

definition pow2 :: "int \<Rightarrow> real" where
  "pow2 e = (if 0 \<le> e then 2 ^ nat e else 1 / 2 ^ nat (- e))"

definition floorLog2 :: "real \<Rightarrow> int" where
  "floorLog2 x = (if 1 \<le> x then bitlen \<lfloor>x\<rfloor> - 1 else - bitlen (\<lceil>1 / x\<rceil> - 1))"

definition roundEven :: "real \<Rightarrow> int" where
  "roundEven q =
     (let f = \<lfloor>q\<rfloor>; d = q - of_int f
      in if d < 1 / 2 then f else if 1 / 2 < d then f + 1 else if even f then f else f + 1)"

text \<open>
  A double has 53 significant bits: the unit in the last place of a number of exponent \<open>e\<close>
  is \<open>pow2 (e - 52)\<close>, and \<open>pow2 (-1074)\<close> below the smallest normal exponent \<open>-1022\<close>.
  A result that rounds to \<open>2 ^ 1024\<close> or beyond is an infinity.
\<close>

definition roundDouble :: "real \<Rightarrow> jsnum" where
  "roundDouble x =
     (if x = 0 then Fin 0
      else (let e = max (floorLog2 \<bar>x\<bar>) (- 1022);
                u = pow2 (e - 52);
                r = of_int (roundEven (x / u)) * u
            in if 2 ^ 1024 \<le> \<bar>r\<bar> then (if 0 < x then PInf else NInf) else Fin r))"

definition jsLiteral :: "real \<Rightarrow> jsnum" where
  "jsLiteral x = roundDouble x"

fun jadd :: "jsnum \<Rightarrow> jsnum \<Rightarrow> jsnum" where
  "jadd NaN _ = NaN"
| "jadd _ NaN = NaN"
| "jadd PInf NInf = NaN"
| "jadd NInf PInf = NaN"
| "jadd PInf _ = PInf"
| "jadd _ PInf = PInf"
| "jadd NInf _ = NInf"
| "jadd _ NInf = NInf"
| "jadd (Fin a) (Fin b) = roundDouble (a + b)"

fun jneg :: "jsnum \<Rightarrow> jsnum" where
  "jneg NaN = NaN"
| "jneg PInf = NInf"
| "jneg NInf = PInf"
| "jneg (Fin a) = Fin (- a)"

definition jsub :: "jsnum \<Rightarrow> jsnum \<Rightarrow> jsnum" where
  "jsub a b = jadd a (jneg b)"

text \<open>The sign of a number, as \<open>-1\<close>, \<open>0\<close> or \<open>1\<close>; \<open>NaN\<close> never reaches it.\<close>

fun jsign :: "jsnum \<Rightarrow> int" where
  "jsign NaN = 0"
| "jsign PInf = 1"
| "jsign NInf = -1"
| "jsign (Fin a) = (if a < 0 then -1 else if a = 0 then 0 else 1)"

definition inf_of_sign :: "int \<Rightarrow> jsnum" where
  "inf_of_sign s = (if s = 0 then NaN else if s < 0 then NInf else PInf)"

fun jmul :: "jsnum \<Rightarrow> jsnum \<Rightarrow> jsnum" where
  "jmul NaN _ = NaN"
| "jmul _ NaN = NaN"
| "jmul (Fin a) (Fin b) = roundDouble (a * b)"
| "jmul a b = inf_of_sign (jsign a * jsign b)"

text \<open>
  Division. A finite non-zero number divided by zero is an infinity of the dividend's sign
  (the zero is taken as positive), \<open>0 / 0\<close> and \<open>\<infinity> / \<infinity>\<close> are \<open>NaN\<close>. The code below only
  divides after testing the divisor against zero.
\<close>

fun jdiv :: "jsnum \<Rightarrow> jsnum \<Rightarrow> jsnum" where
  "jdiv NaN _ = NaN"
| "jdiv _ NaN = NaN"
| "jdiv (Fin a) (Fin b) =
     (if b = 0 then inf_of_sign (jsign (Fin a)) else roundDouble (a / b))"
| "jdiv (Fin a) _ = Fin 0"
| "jdiv a (Fin b) = inf_of_sign (jsign a * (if b < 0 then -1 else 1))"
| "jdiv _ _ = NaN"

fun jless :: "jsnum \<Rightarrow> jsnum \<Rightarrow> bool" where
  "jless NaN _ = False"
| "jless _ NaN = False"
| "jless (Fin a) (Fin b) = (a < b)"
| "jless NInf NInf = False"
| "jless NInf _ = True"
| "jless PInf _ = False"
| "jless (Fin a) PInf = True"
| "jless (Fin a) NInf = False"

text \<open>Strict equality \<open>===\<close> on numbers: \<open>NaN\<close> is not equal to itself.\<close>

definition jeq :: "jsnum \<Rightarrow> jsnum \<Rightarrow> bool" where
  "jeq a b = (a \<noteq> NaN \<and> a = b)"

text \<open>\<open>Number.isNaN\<close>.\<close>

definition isNaN :: "jsnum \<Rightarrow> bool" where
  "isNaN a = (a = NaN)"

text \<open>\<open>String.prototype.startsWith\<close>, \<open>endsWith\<close>, \<open>includes\<close> (of one character) and \<open>indexOf\<close>.\<close>

definition startsWith :: "string \<Rightarrow> string \<Rightarrow> bool" where
  "startsWith s p = (take (length p) s = p)"

definition endsWith :: "string \<Rightarrow> string \<Rightarrow> bool" where
  "endsWith s p = (length p \<le> length s \<and> drop (length s - length p) s = p)"

definition includesChar :: "string \<Rightarrow> char \<Rightarrow> bool" where
  "includesChar s c = (c \<in> set s)"

fun indexOf :: "string \<Rightarrow> string \<Rightarrow> nat option" where
  "indexOf [] p = (if p = [] then Some 0 else None)"
| "indexOf (c # r) p =
     (if startsWith (c # r) p then Some 0 else map_option Suc (indexOf r p))"

text \<open>
  The regular expressions of the code use the word-character class and the word-boundary
  assertion. A word character is an ASCII letter, a digit or the underscore; the
  word-boundary assertion holds at a position when exactly one
  of the characters before and after it is a word character (a missing character counts
  as a non-word character).
\<close>

definition is_word_char :: "char \<Rightarrow> bool" where
  "is_word_char c =
     (c \<in> set ''abcdefghijklmnopqrstuvwxyzABCDEFGHIJKLMNOPQRSTUVWXYZ0123456789_'')"

definition word_at :: "string \<Rightarrow> nat \<Rightarrow> bool" where
  "word_at s i = (i < length s \<and> is_word_char (s ! i))"

definition word_boundary :: "string \<Rightarrow> nat \<Rightarrow> bool" where
  "word_boundary s i = ((0 < i \<and> word_at s (i - 1)) \<noteq> word_at s i)"

text \<open>The test of a regular expression that anchors a literal word \<open>w\<close> at the start and asserts a word boundary after it.\<close>

definition test_word_prefix :: "string \<Rightarrow> string \<Rightarrow> bool" where
  "test_word_prefix w s = (startsWith s w \<and> word_boundary s (length w))"

text \<open>The test of the expression for \<open>ttfb\<close>: the word at the start, followed by a dot or by the end of the string.\<close>

definition test_ttfb :: "string \<Rightarrow> bool" where
  "test_ttfb s =
     (startsWith s ''ttfb'' \<and>
      (case drop 4 s of [] \<Rightarrow> True | c # _ \<Rightarrow> c = CHR ''.''))"

section \<open>JavaScript objects\<close>

text \<open>
  An object is the list of its own enumerable properties in the order \<open>Object.entries\<close>
  reads them: the array indices (canonical decimal strings below \<open>2^32 - 1\<close>) in ascending
  order first, the other keys in the order of their creation. \<open>defineOwn\<close> creates or
  overwrites an own property and keeps that order; \<open>map_of\<close> reads an own property. A list
  given as an input is taken to be in that order, with distinct keys.
\<close>

definition isDigit :: "char \<Rightarrow> bool" where
  "isDigit c = (c \<in> set ''0123456789'')"

definition digitValue :: "char \<Rightarrow> int" where
  "digitValue c = int (length (takeWhile (\<lambda>d. d \<noteq> c) ''0123456789''))"

definition parseNat :: "string \<Rightarrow> int" where
  "parseNat s = foldl (\<lambda>n c. 10 * n + digitValue c) 0 s"

definition isArrayIndex :: "string \<Rightarrow> bool" where
  "isArrayIndex s =
     (s \<noteq> [] \<and> (\<forall>c \<in> set s. isDigit c) \<and> (s = ''0'' \<or> hd s \<noteq> CHR ''0'') \<and>
      parseNat s < 4294967295)"

definition comesBefore :: "string \<Rightarrow> string \<Rightarrow> bool" where
  "comesBefore k' k = (isArrayIndex k' \<and> parseNat k' < parseNat k)"

definition insertNew :: "string \<Rightarrow> 'v \<Rightarrow> (string \<times> 'v) list \<Rightarrow> (string \<times> 'v) list" where
  "insertNew k v own =
     (if isArrayIndex k
      then takeWhile (\<lambda>(k', v'). comesBefore k' k) own @ (k, v)
           # dropWhile (\<lambda>(k', v'). comesBefore k' k) own
      else own @ [(k, v)])"

definition defineOwn :: "string \<Rightarrow> 'v \<Rightarrow> (string \<times> 'v) list \<Rightarrow> (string \<times> 'v) list" where
  "defineOwn k v own =
     (if k \<in> fst ` set own then AList.update k v own else insertNew k v own)"

text \<open>
  The names every ordinary object inherits from \<open>Object.prototype\<close>. All are functions but
  \<open>__proto__\<close>, which is an accessor: reading it gives the prototype of the object, and
  assigning to it replaces the prototype when the value is an object or \<open>null\<close> and does
  nothing otherwise.
\<close>

definition objectPrototypeKeys :: "string list" where
  "objectPrototypeKeys =
     [''constructor'', ''__defineGetter__'', ''__defineSetter__'', ''hasOwnProperty'',
      ''__lookupGetter__'', ''__lookupSetter__'', ''isPrototypeOf'', ''propertyIsEnumerable'',
      ''toString'', ''valueOf'', ''__proto__'', ''toLocaleString'']"

text \<open>
  The assignment \<open>obj[k] = v\<close> of a number or boolean \<open>v\<close> to an object whose prototype is
  \<open>Object.prototype\<close>: an own property is overwritten, the assignment to an inherited
  \<open>__proto__\<close> does nothing, any other key becomes an own property.
\<close>

definition assignData :: "string \<Rightarrow> 'v \<Rightarrow> (string \<times> 'v) list \<Rightarrow> (string \<times> 'v) list" where
  "assignData k v own =
     (if k = ''__proto__'' \<and> k \<notin> fst ` set own then own else defineOwn k v own)"

text \<open>
  The values of a document read by \<open>JSON.parse\<close> or built by the code. \<open>JObj own proto\<close>
  is an object with its own properties and its prototype, \<open>JObjectPrototype\<close> is
  \<open>Object.prototype\<close> itself and \<open>JBuiltin n\<close> the function that is its member \<open>n\<close>. Objects
  are values here: the code modelled never changes an object after sharing it. Arrays, and
  the members of the prototypes of strings, numbers, booleans and functions, are not
  modelled.
\<close>

datatype jsv =
    JUndefined
  | JNull
  | JBool bool
  | JNum jsnum
  | JStr string
  | JBuiltin string
  | JObjectPrototype
  | JObj "(string \<times> jsv) list" jsv

definition emptyObject :: jsv where
  "emptyObject = JObj [] JObjectPrototype"

fun truthy :: "jsv \<Rightarrow> bool" where
  "truthy JUndefined = False"
| "truthy JNull = False"
| "truthy (JBool b) = b"
| "truthy (JNum x) = (x \<noteq> NaN \<and> x \<noteq> Fin 0)"
| "truthy (JStr s) = (s \<noteq> [])"
| "truthy (JBuiltin n) = True"
| "truthy JObjectPrototype = True"
| "truthy (JObj own p) = True"

text \<open>\<open>typeof v === "object"\<close>, which holds of \<open>null\<close> too; \<open>v\<close> is \<open>null\<close> or \<open>undefined\<close>; \<open>v\<close> is an object.\<close>

fun typeofObject :: "jsv \<Rightarrow> bool" where
  "typeofObject JNull = True"
| "typeofObject JObjectPrototype = True"
| "typeofObject (JObj own p) = True"
| "typeofObject _ = False"

fun nullish :: "jsv \<Rightarrow> bool" where
  "nullish JUndefined = True"
| "nullish JNull = True"
| "nullish _ = False"

fun isObject :: "jsv \<Rightarrow> bool" where
  "isObject JObjectPrototype = True"
| "isObject (JBuiltin n) = True"
| "isObject (JObj own p) = True"
| "isObject _ = False"

text \<open>The decimal numeral of a natural number, for the index keys of a string.\<close>

fun showNat :: "nat \<Rightarrow> string" where
  "showNat n =
     (if n < 10 then [''0123456789'' ! n]
      else showNat (n div 10) @ [''0123456789'' ! (n mod 10)])"

text \<open>\<open>Object.entries\<close>, and the properties an object spread copies.\<close>

fun ownEntries :: "jsv \<Rightarrow> (string \<times> jsv) list" where
  "ownEntries (JObj own p) = own"
| "ownEntries (JStr s) = map (\<lambda>i. (showNat i, JStr [s ! i])) [0..<length s]"
| "ownEntries _ = []"

text \<open>
  A property found on the prototype chain, from the prototype \<open>p\<close> on: the first own
  property of that name; on \<open>Object.prototype\<close> the accessor \<open>__proto__\<close> gives the
  prototype \<open>r\<close> of the object that was read, and the other names its functions.
\<close>

definition objectPrototypeMember :: "string \<Rightarrow> jsv \<Rightarrow> jsv" where
  "objectPrototypeMember k r =
     (if k = ''__proto__'' then r
      else if k \<in> set objectPrototypeKeys then JBuiltin k else JUndefined)"

fun inheritedProp :: "jsv \<Rightarrow> string \<Rightarrow> jsv \<Rightarrow> jsv" where
  "inheritedProp (JObj own p) k r =
     (case map_of own k of Some v \<Rightarrow> v | None \<Rightarrow> inheritedProp p k r)"
| "inheritedProp JObjectPrototype k r = objectPrototypeMember k r"
| "inheritedProp (JBuiltin n) k r = objectPrototypeMember k r"
| "inheritedProp _ k r = JUndefined"

text \<open>The property read \<open>v[k]\<close> of a value that is not \<open>null\<close> or \<open>undefined\<close>.\<close>

fun getProp :: "jsv \<Rightarrow> string \<Rightarrow> jsv" where
  "getProp (JObj own p) k =
     (case map_of own k of Some v \<Rightarrow> v | None \<Rightarrow> inheritedProp p k p)"
| "getProp JObjectPrototype k = objectPrototypeMember k JNull"
| "getProp v k = objectPrototypeMember k JObjectPrototype"

text \<open>The operator \<open>k in v\<close> on an object.\<close>

fun hasProp :: "jsv \<Rightarrow> string \<Rightarrow> bool" where
  "hasProp (JObj own p) k = (k \<in> fst ` set own \<or> hasProp p k)"
| "hasProp JObjectPrototype k = (k \<in> set objectPrototypeKeys)"
| "hasProp (JBuiltin n) k = (k \<in> set objectPrototypeKeys)"
| "hasProp _ k = False"

text \<open>
  The assignment \<open>obj[k] = v\<close>. An own property is overwritten. Otherwise the key
  \<open>__proto__\<close> reaches the setter of \<open>Object.prototype\<close>, unless a prototype on the way has
  an own property of that name or the chain ends before; every other key becomes a new own
  property.
\<close>

fun reachesProtoSetter :: "jsv \<Rightarrow> bool" where
  "reachesProtoSetter (JObj own p) = (''__proto__'' \<notin> fst ` set own \<and> reachesProtoSetter p)"
| "reachesProtoSetter JObjectPrototype = True"
| "reachesProtoSetter (JBuiltin n) = True"
| "reachesProtoSetter _ = False"

fun setProp :: "jsv \<Rightarrow> string \<Rightarrow> jsv \<Rightarrow> jsv" where
  "setProp (JObj own p) k v =
     (if k \<in> fst ` set own then JObj (AList.update k v own) p
      else if k = ''__proto__'' \<and> reachesProtoSetter p
           then (if isObject v \<or> v = JNull then JObj own v else JObj own p)
      else JObj (insertNew k v own) p)"
| "setProp obj k v = obj"

section \<open>Baseline store: tolerances, directions, suite identity\<close>

definition getDefaultTolerance :: "string \<Rightarrow> jsnum" where
  "getDefaultTolerance metricName =
     (if test_word_prefix ''latency'' metricName \<or> test_ttfb metricName then jsLiteral 0.2
      else if test_word_prefix ''tokens'' metricName then jsLiteral 0.1
      else if test_word_prefix ''score'' metricName then jsLiteral 0.05
      else if test_word_prefix ''throughput'' metricName then jsLiteral 0.15
      else if test_word_prefix ''error'' metricName then Fin 0
      else if metricName = ''test.pass_rate'' then jsLiteral 0.05
      else if metricName = ''test.count'' then Fin 0
      else jsLiteral 0.1)"

datatype direction = higher | lower

definition getMetricDirection :: "string \<Rightarrow> direction" where
  "getMetricDirection metricName =
     (if test_word_prefix ''score'' metricName then higher
      else if test_word_prefix ''throughput'' metricName then higher
      else if metricName = ''test.pass_rate'' then higher
      else lower)"

definition looksLikeIdentity :: "string \<Rightarrow> bool" where
  "looksLikeIdentity identity =
     (identity = ''<unknown>'' \<or>
      includesChar identity CHR ''/'' \<or>
      includesChar identity (CHR 0x5C) \<or>
      endsWith identity ''.eval.ts'' \<or>
      endsWith identity ''.eval.js'')"

definition suiteIdFromSuiteKey :: "string \<Rightarrow> string" where
  "suiteIdFromSuiteKey suiteKey =
     (case indexOf suiteKey ''::'' of
        None \<Rightarrow> suiteKey
      | Some delimiterIndex \<Rightarrow>
          (let identity = take delimiterIndex suiteKey in
           if \<not> looksLikeIdentity identity then suiteKey
           else (let suiteId = drop (delimiterIndex + 2) suiteKey in
                 if 0 < length suiteId then suiteId else suiteKey)))"

section \<open>Case records\<close>

text \<open>
  A metric value is a number or a boolean, and the metrics of a case are an object of such
  values: the list of its own properties. The code reads a metric with \<open>metrics[name]\<close> and
  then tests \<open>typeof\<close> of the value for \<open>"number"\<close>; a name the object only inherits gives
  a function or an object, which fails that test like a missing name, so \<open>map_of\<close> stands
  for the read. Values of type \<open>unknown\<close> (captured input, output, expected value, scorer
  metadata) are opaque to the code modelled here and kept as strings.
\<close>

datatype mval = Num jsnum | Bool bool

record ScorerResult =
  scorerName :: string
  scorerScore :: jsnum
  scorerDescription :: "string option"
  scorerMetadata :: "string option"

record TestMetrics =
  suiteKey :: string
  suiteName :: string
  testName :: string
  metrics :: "(string \<times> mval) list"
  weight :: jsnum
  passed :: bool
  scorerResults :: "ScorerResult list"
  caseInput :: "string option"
  caseOutput :: "string option"
  caseExpected :: "string option"

text \<open>An aggregation entry \<open>{value, weight}\<close> is the pair \<open>(value, weight)\<close>.\<close>

type_synonym AggregationEntry = "jsnum \<times> jsnum"

record SuiteConfig =
  passThreshold :: "jsnum option"
  aggregations :: "(string \<times> (AggregationEntry list \<Rightarrow> jsnum)) list option"

section \<open>Aggregator\<close>

datatype MetricKind = latencyKind | throughputKind | tokensKind | scoreKind | errorKind | unknownKind

definition classifyMetric :: "string \<Rightarrow> MetricKind" where
  "classifyMetric n =
     (if n = ''latency'' \<or> startsWith n ''ttfb'' then latencyKind
      else if startsWith n ''throughput'' then throughputKind
      else if startsWith n ''tokens.'' then tokensKind
      else if startsWith n ''score.'' then scoreKind
      else if n = ''error'' then errorKind
      else unknownKind)"

definition weightedAvg :: "AggregationEntry list \<Rightarrow> jsnum" where
  "weightedAvg entries =
     (let sumWeighted = foldl (\<lambda>acc (v, w). jadd acc (jmul v w)) (Fin 0) entries;
          sumWeights = foldl (\<lambda>acc (v, w). jadd acc w) (Fin 0) entries
      in if jeq sumWeights (Fin 0) then Fin 0 else jdiv sumWeighted sumWeights)"

definition sumEntries :: "AggregationEntry list \<Rightarrow> jsnum" where
  "sumEntries entries = foldl (\<lambda>total (v, w). jadd total v) (Fin 0) entries"

definition minEntries :: "AggregationEntry list \<Rightarrow> jsnum" where
  "minEntries entries = foldl (\<lambda>result (v, w). if jless v result then v else result) PInf entries"

definition weightedRate :: "AggregationEntry list \<Rightarrow> jsnum" where
  "weightedRate entries = weightedAvg entries"

text \<open>The set of names is kept as a list in order of first insertion.\<close>

definition collectNumericMetricNames :: "TestMetrics list \<Rightarrow> string list" where
  "collectNumericMetricNames tests =
     foldl (\<lambda>metricNames test.
              foldl (\<lambda>names (metricName, metricValue).
                       (case metricValue of
                          Num _ \<Rightarrow> if metricName \<in> set names then names else names @ [metricName]
                        | Bool _ \<Rightarrow> names))
                    metricNames (metrics test))
           [] tests"

fun entriesForMetric :: "TestMetrics list \<Rightarrow> string \<Rightarrow> AggregationEntry list" where
  "entriesForMetric [] metricName = []"
| "entriesForMetric (test # tests) metricName =
     (case map_of (metrics test) metricName of
        Some (Num metricValue) \<Rightarrow> (metricValue, weight test) # entriesForMetric tests metricName
      | _ \<Rightarrow> entriesForMetric tests metricName)"

datatype AggOp = OpSum | OpAvg | OpMin | OpCount | OpRate

fun opName :: "AggOp \<Rightarrow> string" where
  "opName OpSum = ''sum''"
| "opName OpAvg = ''avg''"
| "opName OpMin = ''min''"
| "opName OpCount = ''count''"
| "opName OpRate = ''rate''"

fun aggregationsForKind :: "MetricKind \<Rightarrow> AggOp list" where
  "aggregationsForKind latencyKind = [OpSum, OpAvg]"
| "aggregationsForKind throughputKind = [OpAvg]"
| "aggregationsForKind tokensKind = [OpSum]"
| "aggregationsForKind scoreKind = [OpAvg, OpMin]"
| "aggregationsForKind errorKind = [OpCount, OpRate]"
| "aggregationsForKind unknownKind = []"

fun computeAgg :: "AggOp \<Rightarrow> AggregationEntry list \<Rightarrow> jsnum" where
  "computeAgg OpSum entries = sumEntries entries"
| "computeAgg OpAvg entries = weightedAvg entries"
| "computeAgg OpMin entries = minEntries entries"
| "computeAgg OpCount entries = sumEntries entries"
| "computeAgg OpRate entries = weightedRate entries"

text \<open>\<open>split\<close> on a character and \<open>join\<close> with it.\<close>

fun splitOn :: "char \<Rightarrow> string \<Rightarrow> string list" where
  "splitOn c [] = [[]]"
| "splitOn c (x # xs) =
     (if x = c then [] # splitOn c xs
      else (case splitOn c xs of [] \<Rightarrow> [[x]] | h # t \<Rightarrow> (x # h) # t))"

fun joinWith :: "char \<Rightarrow> string list \<Rightarrow> string" where
  "joinWith c [] = []"
| "joinWith c [s] = s"
| "joinWith c (s # ss) = s @ c # joinWith c ss"

definition metricKeyForCustomAggregation :: "string \<Rightarrow> string" where
  "metricKeyForCustomAggregation n =
     (if includesChar n CHR ''.'' then joinWith CHR ''.'' (butlast (splitOn CHR ''.'' n)) else n)"

text \<open>
  The loop of \<open>buildPassEntries\<close> over the metrics of one case, carrying
  \<open>(hasScoreMetric, passed)\<close>; it stops at the first score below the threshold.
\<close>

fun scanScores :: "jsnum \<Rightarrow> (string \<times> mval) list \<Rightarrow> bool \<times> bool \<Rightarrow> bool \<times> bool" where
  "scanScores threshold [] (hasScoreMetric, pass) = (hasScoreMetric, pass)"
| "scanScores threshold ((metricName, Bool b) # rest) (hasScoreMetric, pass) =
     scanScores threshold rest (hasScoreMetric, pass)"
| "scanScores threshold ((metricName, Num metricValue) # rest) (hasScoreMetric, pass) =
     (if \<not> startsWith metricName ''score.'' then
        scanScores threshold rest (hasScoreMetric, pass)
      else if jless metricValue threshold then (True, False)
      else scanScores threshold rest (True, pass))"

definition passEntry :: "jsnum \<Rightarrow> TestMetrics \<Rightarrow> AggregationEntry" where
  "passEntry threshold test =
     (if \<not> passed test then (Fin 0, weight test)
      else (case scanScores threshold (metrics test) (False, True) of
              (hasScoreMetric, pass) \<Rightarrow>
                (if (if hasScoreMetric then pass else passed test) then Fin 1 else Fin 0,
                 weight test)))"

definition buildPassEntries :: "TestMetrics list \<Rightarrow> jsnum \<Rightarrow> AggregationEntry list" where
  "buildPassEntries tests threshold = map (passEntry threshold) tests"

text \<open>The entries \<open>aggregateMetrics\<close> computes the statistics of one metric from.\<close>

definition statEntries :: "TestMetrics list \<Rightarrow> string \<Rightarrow> AggregationEntry list" where
  "statEntries tests metric =
     (if metric = ''error'' then
        map (\<lambda>test. ((case map_of (metrics test) ''error'' of
                          Some (Num errorMetric) \<Rightarrow> errorMetric
                        | _ \<Rightarrow> Fin 0),
                       weight test)) tests
      else entriesForMetric tests metric)"

text \<open>
  The result is the map of the own properties of the result object. A key
  \<open>metric.op\<close>, \<open>test.count\<close> or \<open>test.pass_rate\<close> contains a dot and becomes an own
  property; the name of a custom aggregation can be \<open>__proto__\<close>, and the assignment of a
  number to it leaves the object as it is (\<open>assignResult\<close>). The default threshold \<open>0.5\<close>
  and the length of the list of cases are doubles as they stand.
\<close>

definition assignResult :: "string \<Rightarrow> jsnum \<Rightarrow> (string \<rightharpoonup> jsnum) \<Rightarrow> (string \<rightharpoonup> jsnum)" where
  "assignResult k v r = (if k = ''__proto__'' \<and> r k = None then r else r(k \<mapsto> v))"

definition aggregateOne :: "TestMetrics list \<Rightarrow> (string \<rightharpoonup> jsnum) \<Rightarrow> string \<Rightarrow> (string \<rightharpoonup> jsnum)" where
  "aggregateOne tests result metric =
     (let ops = aggregationsForKind (classifyMetric metric) in
      if length ops = 0 then result
      else (let entries = statEntries tests metric in
            if length entries = 0 then result
            else foldl (\<lambda>r op. r(metric @ ''.'' @ opName op \<mapsto> computeAgg op entries)) result ops))"

definition aggregateMetrics :: "TestMetrics list \<Rightarrow> SuiteConfig option \<Rightarrow> (string \<rightharpoonup> jsnum)" where
  "aggregateMetrics tests suiteConfig =
     (if length tests = 0 then [''test.count'' \<mapsto> Fin 0, ''test.pass_rate'' \<mapsto> Fin 0]
      else
        (let metricNames = collectNumericMetricNames tests;
             result1 = foldl (aggregateOne tests) Map.empty metricNames;
             result2 = result1(''test.count'' \<mapsto> Fin (real (length tests)));
             threshold = (case suiteConfig of
                            None \<Rightarrow> Fin 0.5
                          | Some c \<Rightarrow> (case passThreshold c of None \<Rightarrow> Fin 0.5 | Some t \<Rightarrow> t));
             passEntries = buildPassEntries tests threshold;
             result3 = result2(''test.pass_rate'' \<mapsto> weightedRate passEntries)
         in (case suiteConfig of
               None \<Rightarrow> result3
             | Some c \<Rightarrow>
                 (case aggregations c of
                    None \<Rightarrow> result3
                  | Some aggs \<Rightarrow>
                      foldl (\<lambda>r (n, aggregationFn).
                               assignResult n
                                 (aggregationFn
                                    (entriesForMetric tests (metricKeyForCustomAggregation n))) r)
                            result3 aggs))))"

section \<open>Baseline store: comparison\<close>

text \<open>
  A baseline entry is a bare number or a \<open>BaselineMetric\<close> object \<open>{value, tolerance,
  direction?}\<close>. A metric record maps names to entries; a document read from JSON can hold
  \<open>null\<close> for an entry, which is \<open>None\<close> here.
\<close>

datatype BaselineEntry = BaselineNumber jsnum | BaselineMetric jsnum jsnum "direction option"

type_synonym MetricRecord = "(string \<times> BaselineEntry option) list"

record NormalizedMetricBaseline =
  baseValue :: jsnum
  baseTolerance :: jsnum
  baseDirection :: direction

fun normalizeMetricBaseline :: "string \<Rightarrow> BaselineEntry \<Rightarrow> NormalizedMetricBaseline" where
  "normalizeMetricBaseline metricName (BaselineNumber v) =
     \<lparr>baseValue = v, baseTolerance = getDefaultTolerance metricName,
      baseDirection = getMetricDirection metricName\<rparr>"
| "normalizeMetricBaseline metricName (BaselineMetric v t d) =
     \<lparr>baseValue = v, baseTolerance = t,
      baseDirection = (case d of Some x \<Rightarrow> x | None \<Rightarrow> getMetricDirection metricName)\<rparr>"

text \<open>\<open>a > b\<close> on numbers.\<close>

definition jgreater :: "jsnum \<Rightarrow> jsnum \<Rightarrow> bool" where
  "jgreater a b = jless b a"

definition hasRegression :: "jsnum \<Rightarrow> jsnum \<Rightarrow> jsnum \<Rightarrow> direction \<Rightarrow> bool" where
  "hasRegression currentValue baselineValue tol dir =
     (if dir = lower then jgreater currentValue (jmul baselineValue (jadd (Fin 1) tol))
      else jless currentValue (jmul baselineValue (jsub (Fin 1) tol)))"

text \<open>
  The current record is the map of its own properties, all numbers. The code tests
  \<open>metric in current\<close> and reads \<open>current[metric]\<close>: for a name the record does not hold
  but inherits from \<open>Object.prototype\<close> the test succeeds and the read gives the inherited
  member, a function or an object, which every arithmetic operation and comparison
  converts to \<open>NaN\<close>.
\<close>

datatype CurrentValue = NumberValue jsnum | InheritedMember string

fun toNumber :: "CurrentValue \<Rightarrow> jsnum" where
  "toNumber (NumberValue x) = x"
| "toNumber (InheritedMember n) = NaN"

definition currentProperty :: "(string \<rightharpoonup> jsnum) \<Rightarrow> string \<Rightarrow> CurrentValue option" where
  "currentProperty cur m =
     (case cur m of
        Some v \<Rightarrow> Some (NumberValue v)
      | None \<Rightarrow> if m \<in> set objectPrototypeKeys then Some (InheritedMember m) else None)"

record ComparisonResult =
  metric :: string
  current :: CurrentValue
  baseline :: jsnum
  tolerance :: jsnum
  change :: jsnum
  regressed :: bool
  direction :: direction

fun compareMetrics :: "(string \<rightharpoonup> jsnum) \<Rightarrow> MetricRecord \<Rightarrow> ComparisonResult list" where
  "compareMetrics cur [] = []"
| "compareMetrics cur ((m, baselineEntry) # rest) =
     (case currentProperty cur m of
        None \<Rightarrow> compareMetrics cur rest
      | Some currentValue \<Rightarrow>
          (case baselineEntry of
             None \<Rightarrow> compareMetrics cur rest
           | Some e \<Rightarrow>
               (let normalized = normalizeMetricBaseline m e;
                    chg = (if jeq (baseValue normalized) (Fin 0) then Fin 0
                           else jdiv (jsub (toNumber currentValue) (baseValue normalized))
                                     (baseValue normalized));
                    reg = hasRegression (toNumber currentValue) (baseValue normalized)
                            (baseTolerance normalized) (baseDirection normalized)
                in \<lparr>metric = m, current = currentValue, baseline = baseValue normalized,
                    tolerance = baseTolerance normalized, change = chg, regressed = reg,
                    direction = baseDirection normalized\<rparr>
                   # compareMetrics cur rest)))"

section \<open>Baseline store: documents\<close>

text \<open>
  A baseline document is what \<open>JSON.parse\<close> returned or what an earlier call built, and
  the code tests its parts before use; so the documents and their parts are values of the
  untyped universe above. A suite entry is an object with the key \<open>_aggregate\<close> and one
  key per case; a baseline file is an object with the reserved keys \<open>_meta\<close>,
  \<open>_aggregate\<close>, \<open>_suites\<close> and one key per case of the legacy single-suite shape. The
  aggregates and the metrics of the cases handed to the store are objects of numbers,
  given as the lists of their entries.
\<close>

definition RESERVED_BASELINE_KEYS :: "string set" where
  "RESERVED_BASELINE_KEYS = {''_meta'', ''_aggregate'', ''_suites''}"

definition BASELINE_TEST_KEY_ESCAPE_PREFIX :: string where
  "BASELINE_TEST_KEY_ESCAPE_PREFIX = ''@''"

definition baselineTestEntryKey :: "string \<Rightarrow> string" where
  "baselineTestEntryKey tn =
     (if tn \<in> RESERVED_BASELINE_KEYS \<or> startsWith tn BASELINE_TEST_KEY_ESCAPE_PREFIX
      then BASELINE_TEST_KEY_ESCAPE_PREFIX @ tn else tn)"

definition buildMetricRecord :: "(string \<times> jsnum) list \<Rightarrow> jsv" where
  "buildMetricRecord ms =
     foldl (\<lambda>rec (n, v). if isNaN v then rec else setProp rec n (JNum v)) emptyObject ms"

definition buildSuiteBaselineData ::
  "(string \<times> jsnum) list \<Rightarrow> (string \<times> (string \<times> jsnum) list) list \<Rightarrow> jsv" where
  "buildSuiteBaselineData aggregates perTest =
     foldl (\<lambda>suiteData (tn, ms).
              setProp suiteData (baselineTestEntryKey tn) (buildMetricRecord ms))
           (JObj [(''_aggregate'', buildMetricRecord aggregates)] JObjectPrototype) perTest"

text \<open>
  \<open>assignLegacySuiteData\<close> deletes every own key of the target that is not reserved, sets
  \<open>_aggregate\<close> and copies the other entries of the suite.
\<close>

fun deleteUnreserved :: "jsv \<Rightarrow> jsv" where
  "deleteUnreserved (JObj own p) = JObj (filter (\<lambda>(k, v). k \<in> RESERVED_BASELINE_KEYS) own) p"
| "deleteUnreserved v = v"

definition assignLegacySuiteData :: "jsv \<Rightarrow> jsv \<Rightarrow> jsv" where
  "assignLegacySuiteData target suiteData =
     foldl (\<lambda>t (k, v). if k = ''_aggregate'' then t else setProp t k v)
           (setProp (deleteUnreserved target) ''_aggregate'' (getProp suiteData ''_aggregate''))
           (ownEntries suiteData)"

text \<open>
  The time of the call and \<open>path.basename\<close> of Node are parameters: \<open>now\<close> is the ISO
  string of the current date, \<open>basename\<close> the library function.
\<close>

definition createBaseMeta :: "string \<Rightarrow> (string \<Rightarrow> string) \<Rightarrow> string \<Rightarrow> jsv" where
  "createBaseMeta now basename evalFilePath =
     JObj [(''updatedAt'', JStr now), (''evalFile'', JStr (basename evalFilePath))]
          JObjectPrototype"

text \<open>The body of the loop of \<open>normalizeSuitesValue\<close>, and the function.\<close>

definition keepSuiteObject :: "jsv \<Rightarrow> string \<times> jsv \<Rightarrow> jsv" where
  "keepSuiteObject suites entry =
     (case entry of (k, suiteValue) \<Rightarrow>
        if \<not> truthy suiteValue \<or> \<not> typeofObject suiteValue then suites
        else if \<not> hasProp suiteValue ''_aggregate'' then suites
        else setProp suites k suiteValue)"

definition normalizeSuitesValue :: "jsv \<Rightarrow> jsv" where
  "normalizeSuitesValue v =
     (if \<not> truthy v \<or> \<not> typeofObject v then emptyObject
      else foldl keepSuiteObject emptyObject (ownEntries v))"

text \<open>
  The bodies of the two loops of \<open>normalizeSuitesByStableId\<close>: the first keeps the entries
  whose stored key is its own stable id, the second fills the remaining stable ids from the
  other entries.
\<close>

definition keepStableKey :: "jsv \<Rightarrow> string \<times> jsv \<Rightarrow> jsv" where
  "keepStableKey normalized entry =
     (case entry of (storedKey, suiteData) \<Rightarrow>
        (let stableId = suiteIdFromSuiteKey storedKey in
         if storedKey = stableId then setProp normalized stableId suiteData
         else normalized))"

definition fillFromLegacyKey :: "jsv \<Rightarrow> string \<times> jsv \<Rightarrow> jsv" where
  "fillFromLegacyKey normalized entry =
     (case entry of (storedKey, suiteData) \<Rightarrow>
        (let stableId = suiteIdFromSuiteKey storedKey in
         if \<not> hasProp normalized stableId then setProp normalized stableId suiteData
         else normalized))"

definition normalizeSuitesByStableId :: "jsv \<Rightarrow> jsv" where
  "normalizeSuitesByStableId suites =
     foldl fillFromLegacyKey (foldl keepStableKey emptyObject (ownEntries suites))
           (ownEntries suites)"

text \<open>
  \<open>upsertSuiteBaseline\<close>. The existing document is \<open>JNull\<close> when there is none. The object
  spread copies the own properties of the existing document and then defines \<open>_meta\<close>;
  \<open>existing?._suites\<close> is \<open>undefined\<close> for \<open>null\<close> and \<open>undefined\<close> and a property read
  otherwise.
\<close>

definition spreadWithMeta :: "jsv \<Rightarrow> jsv \<Rightarrow> jsv" where
  "spreadWithMeta existing meta =
     JObj (defineOwn ''_meta'' meta
             (foldl (\<lambda>own (k, v). defineOwn k v own) [] (ownEntries existing)))
          JObjectPrototype"

definition upsertSuiteBaseline ::
  "string \<Rightarrow> (string \<Rightarrow> string) \<Rightarrow> string \<Rightarrow> jsv \<Rightarrow> string \<Rightarrow>
   (string \<times> jsnum) list \<Rightarrow> (string \<times> (string \<times> jsnum) list) list \<Rightarrow> jsv" where
  "upsertSuiteBaseline now basename evalFilePath existing key aggregates perTest =
     (let suiteData = buildSuiteBaselineData aggregates perTest;
          stableSuiteId = suiteIdFromSuiteKey key;
          next = (if truthy existing
                  then spreadWithMeta existing (createBaseMeta now basename evalFilePath)
                  else JObj [(''_meta'', createBaseMeta now basename evalFilePath),
                             (''_aggregate'', getProp suiteData ''_aggregate'')]
                            JObjectPrototype);
          suites = normalizeSuitesByStableId
                     (normalizeSuitesValue
                        (if nullish existing then JUndefined else getProp existing ''_suites''));
          suites' = setProp suites stableSuiteId suiteData;
          next' = setProp next ''_suites'' suites'
      in assignLegacySuiteData next' suiteData)"

text \<open>
  \<open>resolveSuiteBaseline\<close>. Reading a property of \<open>null\<close> or \<open>undefined\<close> throws a
  \<open>TypeError\<close>; the result \<open>JNull\<close> is the \<open>null\<close> the function returns. The operator
  \<open>??\<close> takes its right operand when the left is \<open>null\<close> or \<open>undefined\<close>.
\<close>

datatype jsError = TypeError

definition legacyCase :: "jsv \<Rightarrow> string \<times> jsv \<Rightarrow> jsv" where
  "legacyCase legacySuite entry =
     (case entry of (k, v) \<Rightarrow>
        if k \<in> RESERVED_BASELINE_KEYS then legacySuite
        else if \<not> truthy v \<or> \<not> typeofObject v then legacySuite
        else setProp legacySuite k v)"

definition resolveSuiteBaseline :: "jsv \<Rightarrow> string \<Rightarrow> jsError + jsv" where
  "resolveSuiteBaseline doc key =
     (if nullish doc then Inl TypeError
      else
        (let stableSuiteId = suiteIdFromSuiteKey key;
             rawSuites = normalizeSuitesValue (getProp doc ''_suites'');
             byStableId = getProp (normalizeSuitesByStableId rawSuites) stableSuiteId;
             suiteData = (if nullish byStableId then getProp rawSuites key else byStableId)
         in if truthy suiteData then Inr suiteData
            else if \<not> truthy (getProp doc ''_aggregate'') then Inr JNull
            else Inr (foldl legacyCase
                        (JObj [(''_aggregate'', getProp doc ''_aggregate'')] JObjectPrototype)
                        (ownEntries doc))))"

text \<open>
  The path of the baseline file. \<open>dirname\<close>, \<open>basename\<close> and \<open>join\<close> of Node's
  \<open>path\<close> module are parameters. \<open>replaceEvalExtension\<close> is the \<open>replace\<close> call: the
  expression matches at a position when the rest of the name is \<open>.eval.\<close> followed by one or
  more word characters up to the end, and the leftmost match is replaced.
\<close>

definition matchesEvalExtension :: "string \<Rightarrow> bool" where
  "matchesEvalExtension s =
     (startsWith s ''.eval.'' \<and> drop 6 s \<noteq> [] \<and> (\<forall>c \<in> set (drop 6 s). is_word_char c))"

fun replaceEvalExtension :: "string \<Rightarrow> string" where
  "replaceEvalExtension [] = []"
| "replaceEvalExtension (c # r) =
     (if matchesEvalExtension (c # r) then ''.eval.baseline.json''
      else c # replaceEvalExtension r)"

definition getBaselinePath ::
  "(string \<Rightarrow> string) \<Rightarrow> (string \<Rightarrow> string) \<Rightarrow> (string \<Rightarrow> string \<Rightarrow> string) \<Rightarrow> string \<Rightarrow> string" where
  "getBaselinePath dirname basename join evalFilePath =
     (let dir = dirname evalFilePath;
          n = replaceEvalExtension (basename evalFilePath)
      in join dir n)"

text \<open>
  The file system is a map from paths to contents; \<open>stringify\<close> stands for
  \<open>JSON.stringify(data, null, 2)\<close>.
\<close>

definition saveBaseline ::
  "(string \<Rightarrow> string) \<Rightarrow> (string \<Rightarrow> string) \<Rightarrow> (string \<Rightarrow> string \<Rightarrow> string) \<Rightarrow>
   (jsv \<Rightarrow> string) \<Rightarrow> (string \<rightharpoonup> string) \<Rightarrow> string \<Rightarrow> jsv \<Rightarrow> (string \<rightharpoonup> string)" where
  "saveBaseline dirname basename join stringify fs evalFilePath content =
     (let path = getBaselinePath dirname basename join evalFilePath
      in fs(path \<mapsto> stringify content @ [CHR 0x0A]))"

section \<open>Collector\<close>

text \<open>
  The collector holds case records by reference: \<open>testResults\<close>, the async-local store and
  \<open>legacyCurrentEntry\<close> all point to the same objects. The model keeps the objects in a heap
  (a list, the address of an object is its index) and the references as addresses. The suite
  registries play no part in recording and are left out.
\<close>

record Collector =
  heap :: "TestMetrics list"
  testResults :: "nat list"
  legacyCurrentEntry :: "nat option"

definition emptyCollector :: Collector where
  "emptyCollector = \<lparr>heap = [], testResults = [], legacyCurrentEntry = None\<rparr>"

definition createTestEntry :: "string \<Rightarrow> string \<Rightarrow> string \<Rightarrow> TestMetrics" where
  "createTestEntry k sn tn =
     \<lparr>suiteKey = k, suiteName = sn, testName = tn, metrics = [], weight = Fin 1,
      passed = True, scorerResults = [], caseInput = None, caseOutput = None,
      caseExpected = None\<rparr>"

text \<open>
  \<open>currentEntry\<close>: the store of the calling async context first (\<open>getStore()\<close>, the first
  argument), then the legacy slot; \<open>None\<close> is the warning and the \<open>null\<close> result.
\<close>

definition currentEntry :: "nat option \<Rightarrow> Collector \<Rightarrow> nat option" where
  "currentEntry store c =
     (case store of
        Some activeEntry \<Rightarrow> Some activeEntry
      | None \<Rightarrow> (case legacyCurrentEntry c of Some e \<Rightarrow> Some e | None \<Rightarrow> None))"

definition numberMetric :: "mval option \<Rightarrow> jsnum" where
  "numberMetric v = (case v of Some (Num x) \<Rightarrow> x | _ \<Rightarrow> Fin 0)"

text \<open>
  The recording calls, and what each does to the entry it resolves. A metric is stored by
  the assignment \<open>entry.metrics[name] = value\<close>.
\<close>

datatype RecordingCall =
    RecordMetric string jsnum
  | RecordScore string jsnum
  | RecordTokens jsnum jsnum "jsnum option"
  | SetWeight jsnum
  | SetTestPassed bool
  | SetTestContext "string option" "string option" "string option"
  | AddScorerResult ScorerResult

fun applyCall :: "RecordingCall \<Rightarrow> TestMetrics \<Rightarrow> TestMetrics" where
  "applyCall (RecordMetric n v) entry =
     entry\<lparr>metrics := assignData n (Num v) (metrics entry)\<rparr>"
| "applyCall (RecordScore n v) entry =
     entry\<lparr>metrics := assignData (''score.'' @ n) (Num v) (metrics entry)\<rparr>"
| "applyCall (RecordTokens promptTokens completionTokens totalTokens) entry =
     (let currentInput = numberMetric (map_of (metrics entry) ''tokens.input'');
          currentOutput = numberMetric (map_of (metrics entry) ''tokens.output'');
          currentTotal = numberMetric (map_of (metrics entry) ''tokens.total'');
          nextTotal = (case totalTokens of Some t \<Rightarrow> t
                       | None \<Rightarrow> jadd promptTokens completionTokens)
      in entry\<lparr>metrics :=
           assignData ''tokens.total'' (Num (jadd currentTotal nextTotal))
             (assignData ''tokens.output'' (Num (jadd currentOutput completionTokens))
               (assignData ''tokens.input'' (Num (jadd currentInput promptTokens))
                 (metrics entry)))\<rparr>)"
| "applyCall (SetWeight w) entry = entry\<lparr>weight := w\<rparr>"
| "applyCall (SetTestPassed p) entry = entry\<lparr>passed := p\<rparr>"
| "applyCall (SetTestContext i out e) entry =
     entry\<lparr>caseInput := i, caseOutput := out, caseExpected := e\<rparr>"
| "applyCall (AddScorerResult r) entry =
     entry\<lparr>scorerResults := scorerResults entry @ [r]\<rparr>"

text \<open>A recording call made in the async context whose store is \<open>store\<close>.\<close>

definition record_call :: "nat option \<Rightarrow> RecordingCall \<Rightarrow> Collector \<Rightarrow> Collector" where
  "record_call store call c =
     (case currentEntry store c of
        None \<Rightarrow> c
      | Some a \<Rightarrow> c\<lparr>heap := (heap c)[a := applyCall call (heap c ! a)]\<rparr>)"

definition recordMetric :: "nat option \<Rightarrow> string \<Rightarrow> jsnum \<Rightarrow> Collector \<Rightarrow> Collector" where
  "recordMetric store n v c = record_call store (RecordMetric n v) c"

definition setTestPassed :: "nat option \<Rightarrow> bool \<Rightarrow> Collector \<Rightarrow> Collector" where
  "setTestPassed store p c = record_call store (SetTestPassed p) c"

text \<open>
  A JavaScript value is falsy when it is \<open>undefined\<close> or the empty string (the two cases
  \<open>beginTest\<close> can meet in its third argument).
\<close>

definition truthyString :: "string option \<Rightarrow> bool" where
  "truthyString v = (case v of None \<Rightarrow> False | Some x \<Rightarrow> x \<noteq> [])"

definition beginTest :: "string \<Rightarrow> string \<Rightarrow> string option \<Rightarrow> Collector \<Rightarrow> Collector" where
  "beginTest suiteKeyOrName suiteNameOrTestName maybeTestName c =
     (let k = suiteKeyOrName;
          sn = (if truthyString maybeTestName then suiteNameOrTestName else suiteKeyOrName);
          tn = (case maybeTestName of Some t \<Rightarrow> t | None \<Rightarrow> suiteNameOrTestName);
          entry = createTestEntry k sn tn
      in c\<lparr>heap := heap c @ [entry], testResults := testResults c @ [length (heap c)],
           legacyCurrentEntry := Some (length (heap c))\<rparr>)"

definition endTest :: "Collector \<Rightarrow> Collector" where
  "endTest c = c\<lparr>legacyCurrentEntry := None\<rparr>"

text \<open>
  \<open>runTest\<close> creates the entry, pushes it and runs the body with the entry as the store of
  the body's async context. \<open>runTestEnter\<close> is the part before the body: it returns the new
  collector and the address bound as the store.
\<close>

definition runTestEnter :: "string \<Rightarrow> string \<Rightarrow> string \<Rightarrow> Collector \<Rightarrow> Collector \<times> nat" where
  "runTestEnter k sn tn c =
     (c\<lparr>heap := heap c @ [createTestEntry k sn tn],
        testResults := testResults c @ [length (heap c)]\<rparr>,
      length (heap c))"

definition runTest ::
  "string \<Rightarrow> string \<Rightarrow> string \<Rightarrow> (nat option \<Rightarrow> Collector \<Rightarrow> Collector \<times> 'r) \<Rightarrow> Collector \<Rightarrow>
   Collector \<times> 'r" where
  "runTest k sn tn fn c = (case runTestEnter k sn tn c of (c', a) \<Rightarrow> fn (Some a) c')"

text \<open>
  \<open>measure\<close> (named \<open>measureCase\<close> here). A body is the list of recording calls it makes
  and then its outcome: \<open>Inr\<close> a result, \<open>Inl\<close> the exception it throws. The two readings
  of the clock are parameters: \<open>elapsed\<close> in the \<open>finally\<close> block, \<open>elapsed'\<close> in the
  returned metrics.
\<close>

record 'r MeasureResult =
  result :: 'r
  measuredLatency :: jsnum
  measuredError :: bool

definition measureCase ::
  "jsnum \<Rightarrow> jsnum \<Rightarrow> RecordingCall list \<times> ('e + 'r) \<Rightarrow> nat option \<Rightarrow> Collector \<Rightarrow>
   Collector \<times> ('e + 'r MeasureResult)" where
  "measureCase elapsed elapsed' body store c =
     (let c1 = foldl (\<lambda>c call. record_call store call c) c (fst body) in
      case snd body of
        Inr r \<Rightarrow>
          (let c2 = recordMetric store ''latency'' elapsed c1
           in (c2, Inr \<lparr>result = r, measuredLatency = elapsed', measuredError = False\<rparr>))
      | Inl err \<Rightarrow>
          (let c2 = recordMetric store ''error'' (Fin 1) c1;
               c3 = setTestPassed store False c2;
               c4 = recordMetric store ''latency'' elapsed c3;
               c5 = recordMetric store ''error'' (Fin 1) c4
           in (c5, Inl err)))"

text \<open>
  Concurrent cases. Each task is the async call tree of one \<open>runTest\<close> call; the async-local
  storage gives every task its own store, which is the map \<open>stores\<close> from task to address.
  An interleaving is a list of events: a task enters \<open>runTest\<close>, a task makes a recording
  call, or code outside every task calls \<open>beginTest\<close> or \<open>endTest\<close>.
\<close>

datatype Event =
    EnterRunTest nat string string string
  | Call nat RecordingCall
  | BeginTest string string "string option"
  | EndTest

fun step :: "Collector \<times> (nat \<rightharpoonup> nat) \<Rightarrow> Event \<Rightarrow> Collector \<times> (nat \<rightharpoonup> nat)" where
  "step (c, stores) (EnterRunTest t k sn tn) =
     (case runTestEnter k sn tn c of (c', a) \<Rightarrow> (c', stores(t \<mapsto> a)))"
| "step (c, stores) (Call t call) = (record_call (stores t) call c, stores)"
| "step (c, stores) (BeginTest a1 a2 a3) = (beginTest a1 a2 a3 c, stores)"
| "step (c, stores) EndTest = (endTest c, stores)"

definition exec :: "Event list \<Rightarrow> Collector \<times> (nat \<rightharpoonup> nat)" where
  "exec evs = foldl step (emptyCollector, Map.empty) evs"

text \<open>The record of a task at the end of a run, and the events a task makes itself.\<close>

definition finalRecord :: "nat \<Rightarrow> Event list \<Rightarrow> TestMetrics option" where
  "finalRecord t evs = (case exec evs of (c, stores) \<Rightarrow> map_option (\<lambda>a. heap c ! a) (stores t))"

fun eventOf :: "nat \<Rightarrow> Event \<Rightarrow> bool" where
  "eventOf t (EnterRunTest t' k sn tn) = (t' = t)"
| "eventOf t (Call t' call) = (t' = t)"
| "eventOf t (BeginTest a1 a2 a3) = False"
| "eventOf t EndTest = False"

definition eventsOf :: "nat \<Rightarrow> Event list \<Rightarrow> Event list" where
  "eventsOf t evs = filter (eventOf t) evs"

text \<open>Replaying the events of one task alone, on a record of its own.\<close>

fun replayStep :: "TestMetrics option \<Rightarrow> Event \<Rightarrow> TestMetrics option" where
  "replayStep r (EnterRunTest t k sn tn) = Some (createTestEntry k sn tn)"
| "replayStep r (Call t call) = map_option (applyCall call) r"
| "replayStep r (BeginTest a1 a2 a3) = r"
| "replayStep r EndTest = r"

definition replay :: "Event list \<Rightarrow> TestMetrics option" where
  "replay evs = foldl replayStep None evs"

section \<open>Auxiliary definitions of the statements\<close>

text \<open>The case record the aggregator's tests build (\<open>makeTestMetrics\<close>).\<close>

definition makeTestMetrics :: "(string \<times> mval) list \<Rightarrow> bool \<Rightarrow> TestMetrics" where
  "makeTestMetrics ms p =
     \<lparr>suiteKey = ''suite::key'', suiteName = ''suite'', testName = ''test'', metrics = ms,
      weight = Fin 1, passed = p, scorerResults = [], caseInput = None, caseOutput = None,
      caseExpected = None\<rparr>"

text \<open>A case has a metric as a number; the entry a case gives for a metric.\<close>

definition hasNumericMetric :: "string \<Rightarrow> TestMetrics \<Rightarrow> bool" where
  "hasNumericMetric m t = (case map_of (metrics t) m of Some (Num v) \<Rightarrow> True | _ \<Rightarrow> False)"

definition entryOf :: "string \<Rightarrow> TestMetrics \<Rightarrow> AggregationEntry" where
  "entryOf m t = (numberMetric (map_of (metrics t) m), weight t)"

text \<open>\<open>a >= b\<close> on numbers.\<close>

definition jgeq :: "jsnum \<Rightarrow> jsnum \<Rightarrow> bool" where
  "jgeq a b = (a \<noteq> NaN \<and> b \<noteq> NaN \<and> \<not> jless a b)"

text \<open>
  No numeric \<open>score.*\<close> metric of a case is below the threshold; a case has a numeric
  \<open>score.*\<close> metric; the threshold and the names of the custom aggregations of a
  configuration.
\<close>

definition noScoreBelow :: "jsnum \<Rightarrow> (string \<times> mval) list \<Rightarrow> bool" where
  "noScoreBelow th ms =
     (\<forall>(n, v) \<in> set ms. \<forall>x. v = Num x \<longrightarrow> startsWith n ''score.'' \<longrightarrow> \<not> jless x th)"

definition hasScore :: "(string \<times> mval) list \<Rightarrow> bool" where
  "hasScore ms = (\<exists>(n, v) \<in> set ms. \<exists>x. v = Num x \<and> startsWith n ''score.'')"

definition thresholdOf :: "SuiteConfig option \<Rightarrow> jsnum" where
  "thresholdOf cfg =
     (case cfg of None \<Rightarrow> Fin 0.5
      | Some c \<Rightarrow> (case passThreshold c of None \<Rightarrow> Fin 0.5 | Some t \<Rightarrow> t))"

definition customNames :: "SuiteConfig option \<Rightarrow> string set" where
  "customNames cfg =
     (case cfg of None \<Rightarrow> {}
      | Some c \<Rightarrow> (case aggregations c of None \<Rightarrow> {} | Some aggs \<Rightarrow> fst ` set aggs))"

text \<open>
  A file name ends in the pattern \<open>.eval.<extension>\<close>, the extension being one or more word
  characters; \<open>hasEvalExtension\<close> decides it by looking at every position.
\<close>

definition endsInEvalExtension :: "string \<Rightarrow> bool" where
  "endsInEvalExtension b =
     (\<exists>stem ext. b = stem @ ''.eval.'' @ ext \<and> ext \<noteq> [] \<and> (\<forall>c \<in> set ext. is_word_char c))"

fun hasEvalExtension :: "string \<Rightarrow> bool" where
  "hasEvalExtension [] = False"
| "hasEvalExtension (c # r) = (matchesEvalExtension (c # r) \<or> hasEvalExtension r)"

text \<open>
  The invariant of a run of concurrent cases: every store points into the heap, the legacy
  slot never points to an entry that is the store of a task, no two tasks share a store; and
  the record of every task is the replay of the task's own events.
\<close>

definition storesValid :: "Collector \<times> (nat \<rightharpoonup> nat) \<Rightarrow> bool" where
  "storesValid s = (case s of (c, stores) \<Rightarrow>
     (\<forall>t a. stores t = Some a \<longrightarrow> a < length (heap c)) \<and>
     (\<forall>a. legacyCurrentEntry c = Some a \<longrightarrow> a < length (heap c) \<and> (\<forall>t. stores t \<noteq> Some a)) \<and>
     (\<forall>t t' a. stores t = Some a \<longrightarrow> stores t' = Some a \<longrightarrow> t = t'))"

definition recordsReplayed :: "Event list \<Rightarrow> Collector \<times> (nat \<rightharpoonup> nat) \<Rightarrow> bool" where
  "recordsReplayed evs s = (case s of (c, stores) \<Rightarrow>
     (\<forall>t. map_option (\<lambda>a. heap c ! a) (stores t) = replay (eventsOf t evs)))"

text \<open>
  Declarative readings used in the statements below: a name belongs to the family of a
  word when it is the word, or the word followed by a non-word character; the separator
  first occurs at position \<open>n\<close> of a key when it occurs there and at no earlier position.
\<close>

definition family_name :: "string \<Rightarrow> string \<Rightarrow> bool" where
  "family_name w n =
     (n = w \<or> (startsWith n w \<and> length w < length n \<and> \<not> is_word_char (n ! length w)))"

definition first_delimiter_at :: "string \<Rightarrow> nat \<Rightarrow> bool" where
  "first_delimiter_at k n =
     (startsWith (drop n k) ''::'' \<and> (\<forall>i<n. \<not> startsWith (drop i k) ''::''))"

section \<open>Evaluation of doubles\<close>

text \<open>
  Rewrite rules that let the simplifier compute \<open>roundDouble\<close> on a rational numeral, and
  the doubles of the decimal literals of the code.
\<close>

lemma bitlen_numeral: "bitlen (numeral n) = bitlen (numeral n div 2) + 1"
  by (subst compute_bitlen) simp

lemma bitlen_0: "bitlen 0 = 0"
  by (subst compute_bitlen) simp

lemma bitlen_1: "bitlen 1 = 1"
  by (subst compute_bitlen) (simp add: bitlen_0)

lemmas double_eval =
  jsLiteral_def roundDouble_def floorLog2_def pow2_def roundEven_def Let_def
  bitlen_numeral bitlen_0 bitlen_1

lemma literal_0_2: "jsLiteral 0.2 = Fin (3602879701896397 / 18014398509481984)"
  by (simp add: double_eval)

lemma literal_0_1: "jsLiteral 0.1 = Fin (3602879701896397 / 36028797018963968)"
  by (simp add: double_eval)

lemma literal_0_05: "jsLiteral 0.05 = Fin (3602879701896397 / 72057594037927936)"
  by (simp add: double_eval)

lemma literal_0_15: "jsLiteral 0.15 = Fin (5404319552844595 / 36028797018963968)"
  by (simp add: double_eval)

lemma literal_0_3: "jsLiteral 0.3 = Fin (5404319552844595 / 18014398509481984)"
  by (simp add: double_eval)

lemma literal_0_8: "jsLiteral 0.8 = Fin (3602879701896397 / 4503599627370496)"
  by (simp add: double_eval)

lemma literal_3_6: "jsLiteral 3.6 = Fin (8106479329266893 / 2251799813685248)"
  by (simp add: double_eval)

lemmas literals = literal_3_6 literal_0_2 literal_0_1 literal_0_05 literal_0_15 literal_0_3 literal_0_8

section \<open>Default tolerances\<close>

lemma startsWith_append: "startsWith s p \<longleftrightarrow> (\<exists>r. s = p @ r)"
  unfolding startsWith_def
  by (metis append_eq_conv_conj append_take_drop_id)

lemma test_word_prefix_family:
  assumes "w \<noteq> []" "is_word_char (last w)"
  shows "test_word_prefix w n \<longleftrightarrow> family_name w n"
proof (cases "startsWith n w")
  case False
  then show ?thesis
    by (auto simp: test_word_prefix_def family_name_def startsWith_def)
next
  case True
  then obtain r where n: "n = w @ r" by (auto simp: startsWith_append)
  from assms obtain ws c where w: "w = ws @ [c]" and c: "is_word_char c"
    by (cases w rule: rev_cases) auto
  have before: "word_at n (length w - 1)"
    using c by (simp add: n w word_at_def nth_append)
  have "word_boundary n (length w) \<longleftrightarrow> \<not> word_at n (length w)"
    using before assms by (simp add: word_boundary_def)
  also have "\<dots> \<longleftrightarrow> (n = w \<or> (length w < length n \<and> \<not> is_word_char (n ! length w)))"
    by (auto simp: n word_at_def)
  finally show ?thesis using True
    by (auto simp: test_word_prefix_def family_name_def)
qed

lemma family_cases:
  "family_name w n \<Longrightarrow> \<exists>r. n = w @ r"
  by (auto simp: family_name_def startsWith_append)

lemma wc: "is_word_char CHR ''y''" "is_word_char CHR ''s''" "is_word_char CHR ''e''" "is_word_char CHR ''t''" "is_word_char CHR ''r''"
  by (simp_all add: is_word_char_def)

lemma fam_latency: "test_word_prefix ''latency'' n = family_name ''latency'' n"
  and fam_tokens: "test_word_prefix ''tokens'' n = family_name ''tokens'' n"
  and fam_score: "test_word_prefix ''score'' n = family_name ''score'' n"
  and fam_throughput: "test_word_prefix ''throughput'' n = family_name ''throughput'' n"
  and fam_error: "test_word_prefix ''error'' n = family_name ''error'' n"
  by (simp_all add: test_word_prefix_family wc)

lemma test_ttfb_iff: "test_ttfb n \<longleftrightarrow> (n = ''ttfb'' \<or> startsWith n ''ttfb.'')"
proof (cases "startsWith n ''ttfb''")
  case False
  then show ?thesis by (auto simp: test_ttfb_def startsWith_append)
next
  case True
  then obtain r where n: "n = ''ttfb'' @ r" by (auto simp: startsWith_append)
  show ?thesis using True by (cases r) (auto simp: n test_ttfb_def startsWith_def)
qed

lemma family_disjoint:
  "family_name w n \<Longrightarrow> family_name w' n \<Longrightarrow> w \<noteq> [] \<Longrightarrow> w' \<noteq> [] \<Longrightarrow> hd w \<noteq> hd w' \<Longrightarrow> False"
  by (cases w; cases w') (auto dest!: family_cases)

lemma not_family:
  "family_name w' n \<Longrightarrow> w \<noteq> [] \<Longrightarrow> w' \<noteq> [] \<Longrightarrow> hd w \<noteq> hd w' \<Longrightarrow> \<not> family_name w n"
  using family_disjoint by blast

lemma not_ttfb:
  "family_name w' n \<Longrightarrow> w' \<noteq> [] \<Longrightarrow> hd w' \<noteq> CHR ''t'' \<Longrightarrow> \<not> test_ttfb n"
  by (cases w') (auto dest!: family_cases simp: test_ttfb_def startsWith_def)

lemma tokens_not_ttfb: "family_name ''tokens'' n \<Longrightarrow> \<not> test_ttfb n"
  by (auto dest!: family_cases simp: test_ttfb_def startsWith_def)

lemma throughput_not_ttfb: "family_name ''throughput'' n \<Longrightarrow> \<not> test_ttfb n"
  by (auto dest!: family_cases simp: test_ttfb_def startsWith_def)

lemma tokens_not_throughput: "family_name ''tokens'' n \<Longrightarrow> \<not> family_name ''throughput'' n"
  by (auto dest!: family_cases)

lemma tolerance_latency_ttfb: "family_name ''latency'' n \<or> n = ''ttfb'' \<or> startsWith n ''ttfb.'' \<Longrightarrow> getDefaultTolerance n = jsLiteral 0.2"
  by (simp add: getDefaultTolerance_def fam_latency test_ttfb_iff)

lemma tolerance_tokens: "family_name ''tokens'' n \<Longrightarrow> getDefaultTolerance n = jsLiteral 0.1"
  by (simp add: getDefaultTolerance_def fam_latency fam_tokens tokens_not_ttfb not_family[of "''tokens''" n "''latency''"])

lemma tolerance_score: "family_name ''score'' n \<Longrightarrow> getDefaultTolerance n = jsLiteral 0.05"
  by (simp add: getDefaultTolerance_def fam_latency fam_tokens fam_score
      not_ttfb[of "''score''" n] not_family[of "''score''" n "''latency''"] not_family[of "''score''" n "''tokens''"])

lemma tolerance_throughput: "family_name ''throughput'' n \<Longrightarrow> getDefaultTolerance n = jsLiteral 0.15"
  using tokens_not_throughput[of n]
  by (auto simp add: getDefaultTolerance_def fam_latency fam_tokens fam_score fam_throughput
      throughput_not_ttfb not_family[of "''throughput''" n "''latency''"] not_family[of "''throughput''" n "''score''"])

lemma tolerance_error: "family_name ''error'' n \<Longrightarrow> getDefaultTolerance n = Fin 0"
  by (simp add: getDefaultTolerance_def fam_latency fam_tokens fam_score fam_throughput fam_error
      not_ttfb[of "''error''" n] not_family[of "''error''" n "''latency''"] not_family[of "''error''" n "''tokens''"]
      not_family[of "''error''" n "''score''"] not_family[of "''error''" n "''throughput''"])

lemma tolerance_pass_rate: "getDefaultTolerance ''test.pass_rate'' = jsLiteral 0.05"
  by (simp add: getDefaultTolerance_def test_word_prefix_def startsWith_def test_ttfb_def)

lemma tolerance_count: "getDefaultTolerance ''test.count'' = Fin 0"
  by (simp add: getDefaultTolerance_def test_word_prefix_def startsWith_def test_ttfb_def)

lemma tolerance_other: "\<not> family_name ''latency'' n \<and> n \<noteq> ''ttfb'' \<and> \<not> startsWith n ''ttfb.'' \<and>
    \<not> family_name ''tokens'' n \<and> \<not> family_name ''score'' n \<and>
    \<not> family_name ''throughput'' n \<and> \<not> family_name ''error'' n \<and>
    n \<noteq> ''test.pass_rate'' \<and> n \<noteq> ''test.count'' \<Longrightarrow> getDefaultTolerance n = jsLiteral 0.1"
  by (simp add: getDefaultTolerance_def fam_latency fam_tokens fam_score fam_throughput fam_error test_ttfb_iff)

text \<open>
  What \<open>getDefaultTolerance\<close> computes: the default tolerance follows the family of the
  name, where a name is of the family of a word when it is the word itself or the word
  followed by a character that is not a letter, digit or underscore; for \<open>ttfb\<close> the
  following character must be a dot.
\<close>

lemma getDefaultTolerance_families:
  "(family_name ''latency'' n \<or> n = ''ttfb'' \<or> startsWith n ''ttfb.'' \<longrightarrow> getDefaultTolerance n = jsLiteral 0.2) \<and>
   (family_name ''tokens'' n \<longrightarrow> getDefaultTolerance n = jsLiteral 0.1) \<and>
   (family_name ''score'' n \<longrightarrow> getDefaultTolerance n = jsLiteral 0.05) \<and>
   (family_name ''throughput'' n \<longrightarrow> getDefaultTolerance n = jsLiteral 0.15) \<and>
   (family_name ''error'' n \<longrightarrow> getDefaultTolerance n = Fin 0) \<and>
   (n = ''test.pass_rate'' \<longrightarrow> getDefaultTolerance n = jsLiteral 0.05) \<and>
   (n = ''test.count'' \<longrightarrow> getDefaultTolerance n = Fin 0) \<and>
   (\<not> family_name ''latency'' n \<and> n \<noteq> ''ttfb'' \<and> \<not> startsWith n ''ttfb.'' \<and>
    \<not> family_name ''tokens'' n \<and> \<not> family_name ''score'' n \<and>
    \<not> family_name ''throughput'' n \<and> \<not> family_name ''error'' n \<and>
    n \<noteq> ''test.pass_rate'' \<and> n \<noteq> ''test.count'' \<longrightarrow> getDefaultTolerance n = jsLiteral 0.1)"
  using tolerance_latency_ttfb[of n] tolerance_tokens[of n] tolerance_score[of n] tolerance_throughput[of n] tolerance_error[of n] tolerance_pass_rate tolerance_count tolerance_other[of n] by blast


lemma getDefaultTolerance_examples:
  "getDefaultTolerance ''latency.avg'' = jsLiteral 0.2 \<and> getDefaultTolerance ''ttfb'' = jsLiteral 0.2 \<and>
   getDefaultTolerance ''ttfb.avg'' = jsLiteral 0.2 \<and>
   getDefaultTolerance ''tokens.total.sum'' = jsLiteral 0.1 \<and> getDefaultTolerance ''score.main.min'' = jsLiteral 0.05 \<and>
   getDefaultTolerance ''throughput.avg'' = jsLiteral 0.15 \<and> getDefaultTolerance ''error.rate'' = Fin 0 \<and>
   getDefaultTolerance ''latency_p95'' = jsLiteral 0.1"
  using getDefaultTolerance_families[of "''latency.avg''"] getDefaultTolerance_families[of "''ttfb''"]
    getDefaultTolerance_families[of "''ttfb.avg''"]
    getDefaultTolerance_families[of "''tokens.total.sum''"] getDefaultTolerance_families[of "''score.main.min''"]
    getDefaultTolerance_families[of "''throughput.avg''"] getDefaultTolerance_families[of "''error.rate''"]
    getDefaultTolerance_families[of "''latency_p95''"]
  by (simp add: family_name_def startsWith_def is_word_char_def)

text \<open>
  C6. The claim gives every name starting with \<open>ttfb\<close> the tolerance 0.20 and every name
  starting with \<open>throughput\<close> the tolerance 0.15. The aggregator classifies a metric by
  that prefix: a case metric \<open>ttfb_ms\<close> is of the latency kind and yields the aggregate
  \<open>ttfb_ms.avg\<close>, a case metric \<open>throughput_tps\<close> is of the throughput kind and yields
  \<open>throughput_tps.avg\<close>. The baseline store asks for a word boundary after the prefix
  (for \<open>ttfb\<close>: a dot or the end of the name), which the underscore is not: both
  aggregates get the tolerance 0.10 of an unknown name, and the throughput aggregate is
  compared as a metric where lower is better.
\<close>

theorem getDefaultTolerance_prefixed_aggregates:
  "startsWith ''ttfb_ms.avg'' ''ttfb'' \<and>
   classifyMetric ''ttfb_ms'' = latencyKind \<and>
   aggregateMetrics [makeTestMetrics [(''ttfb_ms'', Num (Fin 100))] True] None ''ttfb_ms.avg''
     = Some (Fin 100) \<and>
   getDefaultTolerance ''ttfb_ms.avg'' = jsLiteral 0.1 \<and>
   jsLiteral 0.1 \<noteq> jsLiteral 0.2 \<and>
   startsWith ''throughput_tps.avg'' ''throughput'' \<and>
   classifyMetric ''throughput_tps'' = throughputKind \<and>
   aggregateMetrics [makeTestMetrics [(''throughput_tps'', Num (Fin 100))] True] None
     ''throughput_tps.avg'' = Some (Fin 100) \<and>
   getDefaultTolerance ''throughput_tps.avg'' = jsLiteral 0.1 \<and>
   jsLiteral 0.1 \<noteq> jsLiteral 0.15 \<and>
   getMetricDirection ''throughput_tps.avg'' = lower"
proof -
  have a: "aggregateMetrics [makeTestMetrics [(''ttfb_ms'', Num (Fin 100))] True] None ''ttfb_ms.avg''
             = Some (Fin 100)"
    by (simp add: aggregateMetrics_def makeTestMetrics_def collectNumericMetricNames_def
        aggregateOne_def classifyMetric_def statEntries_def sumEntries_def buildPassEntries_def
        passEntry_def weightedRate_def weightedAvg_def startsWith_def jeq_def double_eval)
  have b: "aggregateMetrics [makeTestMetrics [(''throughput_tps'', Num (Fin 100))] True] None
             ''throughput_tps.avg'' = Some (Fin 100)"
    by (simp add: aggregateMetrics_def makeTestMetrics_def collectNumericMetricNames_def
        aggregateOne_def classifyMetric_def statEntries_def sumEntries_def buildPassEntries_def
        passEntry_def weightedRate_def weightedAvg_def startsWith_def jeq_def double_eval)
  have c: "getDefaultTolerance ''ttfb_ms.avg'' = jsLiteral 0.1"
    "getDefaultTolerance ''throughput_tps.avg'' = jsLiteral 0.1"
    "getMetricDirection ''throughput_tps.avg'' = lower"
    by (simp_all add: getDefaultTolerance_def getMetricDirection_def test_word_prefix_def
        startsWith_def word_boundary_def word_at_def is_word_char_def test_ttfb_def)
  have d: "jsLiteral 0.1 \<noteq> jsLiteral 0.2" "jsLiteral 0.1 \<noteq> jsLiteral 0.15"
    unfolding literals by simp_all
  have e: "startsWith ''ttfb_ms.avg'' ''ttfb''" "classifyMetric ''ttfb_ms'' = latencyKind"
    "startsWith ''throughput_tps.avg'' ''throughput''"
    "classifyMetric ''throughput_tps'' = throughputKind"
    by (simp_all add: classifyMetric_def startsWith_def)
  from a b c d e show ?thesis by simp
qed

section \<open>Stable suite ids\<close>

lemma indexOf_Some: "p \<noteq> [] \<Longrightarrow> indexOf s p = Some n \<longleftrightarrow> (startsWith (drop n s) p \<and> (\<forall>i<n. \<not> startsWith (drop i s) p))"
proof (induction s arbitrary: n)
  case Nil
  then show ?case by (auto simp: startsWith_def)
next
  case (Cons c r)
  show ?case
  proof (cases "startsWith (c # r) p")
    case True
    then show ?thesis by (cases n) auto
  next
    case False
    show ?thesis
    proof (cases n)
      case 0
      with False show ?thesis by simp
    next
      case (Suc m)
      have "(\<forall>i<Suc m. \<not> startsWith (drop i (c # r)) p) \<longleftrightarrow> (\<forall>i<m. \<not> startsWith (drop i r) p)"
        using False by (auto simp: less_Suc_eq_0_disj)
      with False Suc Cons.IH[OF Cons.prems, of m] show ?thesis by auto
    qed
  qed
qed

lemma indexOf_None: "p \<noteq> [] \<Longrightarrow> indexOf s p = None \<longleftrightarrow> (\<forall>i. \<not> startsWith (drop i s) p)"
proof (induction s)
  case Nil
  then show ?case by (auto simp: startsWith_def)
next
  case (Cons c r)
  have "(\<forall>i. \<not> startsWith (drop i (c # r)) p) \<longleftrightarrow> (\<not> startsWith (c # r) p \<and> (\<forall>i. \<not> startsWith (drop i r) p))"
  proof (intro iffI conjI allI)
    assume a: "\<forall>i. \<not> startsWith (drop i (c # r)) p"
    from a[rule_format, of 0] show "\<not> startsWith (c # r) p" by simp
    fix i from a[rule_format, of "Suc i"] show "\<not> startsWith (drop i r) p" by simp
  next
    fix i assume a: "\<not> startsWith (c # r) p \<and> (\<forall>i. \<not> startsWith (drop i r) p)"
    then show "\<not> startsWith (drop i (c # r)) p" by (cases i) auto
  qed
  with Cons show ?case by auto
qed

lemma first_delimiter_at_indexOf: "first_delimiter_at k n \<longleftrightarrow> indexOf k ''::'' = Some n"
  by (simp add: indexOf_Some first_delimiter_at_def)

lemma no_delimiter_indexOf: "(\<forall>i. \<not> startsWith (drop i k) ''::'') \<longleftrightarrow> indexOf k ''::'' = None"
  by (simp add: indexOf_None)

text \<open>
  C7 (amended). The stable id of a suite key is derived from the first occurrence of \<open>::\<close>
  only. A key without \<open>::\<close> is its own stable id. When \<open>::\<close> first occurs at position
  \<open>n\<close>, the prefix before it looks like an identity (it is \<open><unknown>\<close>, contains a slash or
  backslash, or ends in \<open>.eval.ts\<close> or \<open>.eval.js\<close>) and the remainder after it is not empty,
  the stable id is the whole remainder, further \<open>::\<close> included; otherwise (the prefix does
  not look like an identity, or the remainder is empty) the stable id is the whole key.
\<close>

theorem suiteIdFromSuiteKey_first_delimiter:
  "((\<forall>i. \<not> startsWith (drop i k) ''::'') \<longrightarrow> suiteIdFromSuiteKey k = k) \<and>
   (first_delimiter_at k n \<longrightarrow>
      suiteIdFromSuiteKey k =
        (if looksLikeIdentity (take n k) \<and> drop (n + 2) k \<noteq> [] then drop (n + 2) k else k))"
proof (intro conjI impI)
  assume "\<forall>i. \<not> startsWith (drop i k) ''::''"
  then have "indexOf k ''::'' = None" by (simp add: indexOf_None)
  then show "suiteIdFromSuiteKey k = k" by (simp add: suiteIdFromSuiteKey_def)
next
  assume "first_delimiter_at k n"
  then have "indexOf k ''::'' = Some n"
    by (simp add: indexOf_Some first_delimiter_at_def)
  then show "suiteIdFromSuiteKey k =
        (if looksLikeIdentity (take n k) \<and> drop (n + 2) k \<noteq> [] then drop (n + 2) k else k)"
    by (simp add: suiteIdFromSuiteKey_def Let_def)
qed

theorem suiteIdFromSuiteKey_first_delimiter_witness:
  "first_delimiter_at ''/tmp/s.eval.ts::group::alpha'' 14 \<and>
   suiteIdFromSuiteKey ''/tmp/s.eval.ts::group::alpha'' = ''group::alpha'' \<and>
   first_delimiter_at ''group::alpha'' 5 \<and>
   suiteIdFromSuiteKey ''group::alpha'' = ''group::alpha'' \<and>
   (\<forall>i. \<not> startsWith (drop i ''plain'') ''::'') \<and>
   suiteIdFromSuiteKey ''plain'' = ''plain''"
proof -
  have a: "first_delimiter_at ''/tmp/s.eval.ts::group::alpha'' 14"
    unfolding first_delimiter_at_indexOf by (simp add: startsWith_def)
  have b: "first_delimiter_at ''group::alpha'' 5"
    unfolding first_delimiter_at_indexOf by (simp add: startsWith_def)
  have c: "\<forall>i. \<not> startsWith (drop i ''plain'') ''::''"
    unfolding no_delimiter_indexOf by (simp add: startsWith_def)
  show ?thesis
    using a b c
      suiteIdFromSuiteKey_first_delimiter[of "''/tmp/s.eval.ts::group::alpha''" 14]
      suiteIdFromSuiteKey_first_delimiter[of "''group::alpha''" 5]
      suiteIdFromSuiteKey_first_delimiter[of "''plain''" 0]
    by (simp add: looksLikeIdentity_def includesChar_def endsWith_def)
qed

text \<open>
  C7 as stated fails for a key that ends with its first \<open>::\<close>: the prefix \<open><unknown>\<close> is an
  identity, the remainder is empty, and the stable id is the whole key, not the remainder.
\<close>

theorem suiteIdFromSuiteKey_empty_name_counterexample:
  "first_delimiter_at ''<unknown>::'' 9 \<and> looksLikeIdentity (take 9 ''<unknown>::'') \<and>
   suiteIdFromSuiteKey ''<unknown>::'' \<noteq> drop (9 + 2) ''<unknown>::''"
  by (simp add: first_delimiter_at_indexOf suiteIdFromSuiteKey_def startsWith_def looksLikeIdentity_def)



section \<open>Aggregation entries\<close>

lemma entriesForMetric_map_filter:
  "entriesForMetric tests m = map (entryOf m) (filter (hasNumericMetric m) tests)"
  by (induction tests)
     (auto simp: entryOf_def hasNumericMetric_def numberMetric_def split: option.splits mval.splits)

text \<open>
  C2 (amended). For every metric name other than \<open>error\<close>, the entries the statistics of the
  metric are computed from are exactly one entry per case that has the metric as a number,
  with that case's weight, in case order; a case lacking the metric gives no entry. For the
  metric \<open>error\<close> every case gives one entry: its numeric \<open>error\<close> value, or 0 when it has
  none.
\<close>

theorem statEntries_per_case:
  "statEntries tests m =
     (if m = ''error'' then map (entryOf m) tests
      else map (entryOf m) (filter (hasNumericMetric m) tests))"
  by (simp add: statEntries_def entriesForMetric_map_filter entryOf_def numberMetric_def
      split: option.splits mval.splits)

theorem statEntries_per_case_witness:
  "statEntries [makeTestMetrics [(''ttfb'', Num (Fin 100))] True, makeTestMetrics [] True] ''ttfb''
     = [(Fin 100, Fin 1)] \<and>
   statEntries [makeTestMetrics [(''error'', Num (Fin 1))] False, makeTestMetrics [] True] ''error''
     = [(Fin 1, Fin 1), (Fin 0, Fin 1)]"
  using statEntries_per_case[of "[makeTestMetrics [(''ttfb'', Num (Fin 100))] True, makeTestMetrics [] True]" "''ttfb''"]
    statEntries_per_case[of "[makeTestMetrics [(''error'', Num (Fin 1))] False, makeTestMetrics [] True]" "''error''"]
  by (simp add: entryOf_def hasNumericMetric_def numberMetric_def makeTestMetrics_def)

text \<open>
  C2 as stated fails for \<open>error\<close>: of two cases of weight 1, one with \<open>error = 1\<close> and one
  without the metric, both give an entry, and \<open>error.rate\<close> is 1/2 instead of 1.
\<close>

theorem statEntries_error_counterexample:
  "\<not> hasNumericMetric ''error'' (makeTestMetrics [] True) \<and>
   statEntries [makeTestMetrics [(''error'', Num (Fin 1))] False, makeTestMetrics [] True] ''error''
     = [(Fin 1, Fin 1), (Fin 0, Fin 1)] \<and>
   aggregateMetrics [makeTestMetrics [(''error'', Num (Fin 1))] False, makeTestMetrics [] True] None
     ''error.rate'' = Some (Fin (1 / 2))"
  by (simp add: hasNumericMetric_def aggregateMetrics_def makeTestMetrics_def
      collectNumericMetricNames_def aggregateOne_def classifyMetric_def statEntries_def
      buildPassEntries_def passEntry_def weightedRate_def weightedAvg_def startsWith_def jeq_def double_eval)

text \<open>
  C3 (amended). The entries of a metric hold the value of every case whose metric is of type
  number, whatever the number: \<open>NaN\<close> and the infinities are entered like any finite value.
  Only a metric that is absent or not a number gives no entry.
\<close>

theorem entriesForMetric_every_number:
  "set (entriesForMetric tests m) =
     {(v, weight t) | t v. t \<in> set tests \<and> map_of (metrics t) m = Some (Num v)}"
  by (induction tests) (auto split: option.splits mval.splits)

text \<open>
  C3 as stated fails: a case with \<open>latency = NaN\<close> has its entry kept, and the aggregate
  \<open>latency.sum\<close> is \<open>NaN\<close>.
\<close>

theorem aggregateMetrics_nan_counterexample:
  "entriesForMetric [makeTestMetrics [(''latency'', Num NaN)] True] ''latency'' = [(NaN, Fin 1)] \<and>
   aggregateMetrics [makeTestMetrics [(''latency'', Num NaN)] True] None ''latency.sum'' = Some NaN"
  by (simp add: aggregateMetrics_def makeTestMetrics_def
      collectNumericMetricNames_def aggregateOne_def classifyMetric_def statEntries_def sumEntries_def
      buildPassEntries_def passEntry_def weightedRate_def weightedAvg_def startsWith_def jeq_def double_eval)


section \<open>Pass rate\<close>

lemma scanScores_result:
  "scanScores th ms (h, p) = (h', p') \<Longrightarrow>
     (p' \<longleftrightarrow> p \<and> noScoreBelow th ms) \<and> (h' \<longleftrightarrow> h \<or> hasScore ms)"
proof (induction th ms "(h, p)" arbitrary: h p rule: scanScores.induct)
  case (1 th h p)
  then show ?case by (simp add: noScoreBelow_def hasScore_def)
next
  case (2 th n b rest h p)
  then show ?case by (simp add: noScoreBelow_def hasScore_def)
next
  case (3 th n x rest h p)
  show ?case
  proof (cases "startsWith n ''score.''")
    case False
    with 3 show ?thesis by (simp add: noScoreBelow_def hasScore_def)
  next
    case True
    show ?thesis
    proof (cases "jless x th")
      case below: True
      with True 3(3) show ?thesis by (auto simp: noScoreBelow_def hasScore_def)
    next
      case False
      with True 3(2)[OF _ False] 3(3) show ?thesis by (auto simp: noScoreBelow_def hasScore_def)
    qed
  qed
qed

lemma passEntry_value:
  "passEntry th t = ((if passed t \<and> noScoreBelow th (metrics t) then Fin 1 else Fin 0), weight t)"
proof (cases "passed t")
  case False
  then show ?thesis by (simp add: passEntry_def)
next
  case True
  obtain h p where s: "scanScores th (metrics t) (False, True) = (h, p)" by force
  from scanScores_result[OF s] have p: "p \<longleftrightarrow> noScoreBelow th (metrics t)" and h: "h \<longleftrightarrow> hasScore (metrics t)"
    by simp_all
  have "\<not> hasScore (metrics t) \<Longrightarrow> noScoreBelow th (metrics t)"
    by (auto simp: hasScore_def noScoreBelow_def)
  with True s p h show ?thesis by (auto simp: passEntry_def)
qed

lemma foldl_custom_other:
  "k \<notin> fst ` set aggs \<Longrightarrow>
   foldl (\<lambda>r (n, f). assignResult n (f (g n)) r) r0 aggs k = r0 k"
  by (induction aggs arbitrary: r0) (auto simp: assignResult_def split: prod.splits)


lemma aggregateMetrics_pass_rate:
  assumes "tests \<noteq> []" "''test.pass_rate'' \<notin> customNames cfg"
  shows "aggregateMetrics tests cfg ''test.pass_rate'' =
           Some (weightedRate (map (passEntry (thresholdOf cfg)) tests))"
  using assms
  by (auto simp: aggregateMetrics_def Let_def buildPassEntries_def thresholdOf_def customNames_def
      foldl_custom_other split: option.splits)

lemma jgeq_not_less: "x \<noteq> NaN \<Longrightarrow> th \<noteq> NaN \<Longrightarrow> jgeq x th \<longleftrightarrow> \<not> jless x th"
  by (simp add: jgeq_def)

text \<open>
  Where no number involved is \<open>NaN\<close>, a case counts as passed exactly when its passed flag is
  set and each of its numeric \<open>score.*\<close> metrics is at least the threshold.
\<close>

lemma passEntry_without_nan:
  assumes "th \<noteq> NaN" and "\<forall>(n, v) \<in> set (metrics t). v \<noteq> Num NaN"
  shows "fst (passEntry th t) = Fin 1 \<longleftrightarrow>
           passed t \<and> (\<forall>(n, v) \<in> set (metrics t). \<forall>x. v = Num x \<longrightarrow> startsWith n ''score.'' \<longrightarrow> jgeq x th)"
proof -
  have "noScoreBelow th (metrics t) \<longleftrightarrow>
          (\<forall>(n, v) \<in> set (metrics t). \<forall>x. v = Num x \<longrightarrow> startsWith n ''score.'' \<longrightarrow> jgeq x th)"
    unfolding noScoreBelow_def using assms by (fastforce simp: jgeq_def)
  then show ?thesis by (simp add: passEntry_value)
qed

text \<open>
  C4. The claim asks every numeric \<open>score.*\<close> metric of a passing case to be at least the
  threshold. The code tests whether a score is below the threshold, which \<open>NaN\<close> never is:
  the one case of a suite, with its passed flag set and \<open>score.main = NaN\<close>, counts as
  passed and the pass rate is 1.
\<close>

theorem pass_rate_nan_score:
  "aggregateMetrics [makeTestMetrics [(''score.main'', Num NaN)] True] None ''test.pass_rate''
     = Some (Fin 1)"
  by (simp add: aggregateMetrics_def makeTestMetrics_def buildPassEntries_def passEntry_def
      weightedRate_def weightedAvg_def startsWith_def jeq_def double_eval)

lemma pass_rate_failed_case_example:
  "aggregateMetrics [makeTestMetrics [(''error'', Num (Fin 1)), (''score.main'', Num (Fin 1))] False,
                     makeTestMetrics [(''score.main'', Num (Fin 1))] True] None ''test.pass_rate''
     = Some (Fin (1 / 2))"
  by (simp add: aggregateMetrics_def makeTestMetrics_def buildPassEntries_def passEntry_def
      weightedRate_def weightedAvg_def startsWith_def jeq_def double_eval)


section \<open>Comparison with a baseline\<close>



text \<open>A metric that the current record neither holds nor inherits is not compared.\<close>

lemma compareMetrics_absent:
  "currentProperty cur m = None \<Longrightarrow> \<forall>r \<in> set (compareMetrics cur base). metric r \<noteq> m"
  by (induction base) (auto simp: Let_def split: option.splits)



section \<open>Upsert and resolve\<close>

lemmas object_eval =
  setProp.simps getProp.simps hasProp.simps ownEntries.simps inheritedProp.simps
  objectPrototypeMember_def objectPrototypeKeys_def insertNew_def defineOwn_def isArrayIndex_def
  isDigit_def emptyObject_def

lemmas baseline_eval =
  upsertSuiteBaseline_def resolveSuiteBaseline_def buildSuiteBaselineData_def
  buildMetricRecord_def createBaseMeta_def spreadWithMeta_def assignLegacySuiteData_def
  normalizeSuitesValue_def keepSuiteObject_def normalizeSuitesByStableId_def keepStableKey_def
  fillFromLegacyKey_def legacyCase_def baselineTestEntryKey_def RESERVED_BASELINE_KEYS_def
  BASELINE_TEST_KEY_ESCAPE_PREFIX_def suiteIdFromSuiteKey_def looksLikeIdentity_def
  includesChar_def endsWith_def startsWith_def isNaN_def Let_def

text \<open>
  Two suites with plain names: after both upserts each key resolves to its own suite.
\<close>

lemma upsert_then_resolve_plain_suites:
  "(let doc1 = upsertSuiteBaseline ''t1'' (\<lambda>p. ''a.eval.ts'') ''/tmp/a.eval.ts'' JNull
                 ''/tmp/a.eval.ts::list'' [(''score.main.avg'', jsLiteral 0.8)] [];
        doc2 = upsertSuiteBaseline ''t2'' (\<lambda>p. ''a.eval.ts'') ''/tmp/a.eval.ts'' doc1
                 ''/tmp/a.eval.ts::other'' [(''score.main.avg'', jsLiteral 0.2)] []
    in resolveSuiteBaseline doc2 ''/tmp/a.eval.ts::list'' =
         Inr (JObj [(''_aggregate'',
                     JObj [(''score.main.avg'', JNum (jsLiteral 0.8))] JObjectPrototype)]
                   JObjectPrototype) \<and>
       resolveSuiteBaseline doc2 ''/tmp/a.eval.ts::other'' =
         Inr (JObj [(''_aggregate'',
                     JObj [(''score.main.avg'', JNum (jsLiteral 0.2))] JObjectPrototype)]
                   JObjectPrototype))"
  unfolding literals by (simp add: baseline_eval object_eval)

text \<open>
  A suite stored under a path-qualified key whose stable id is a name every object
  inherits: the second loop of \<open>normalizeSuitesByStableId\<close> finds the name \<open>in\<close> the
  empty object and drops the suite, and the read of the stable id gives the inherited
  function, which \<open>resolveSuiteBaseline\<close> returns.
\<close>

lemma resolve_inherited_name:
  "resolveSuiteBaseline
     (JObj [(''_suites'',
             JObj [(''/tmp/a.eval.ts::toString'',
                    JObj [(''_aggregate'', emptyObject)] JObjectPrototype)]
                  JObjectPrototype)]
           JObjectPrototype)
     ''/tmp/a.eval.ts::toString'' = Inr (JBuiltin ''toString'')"
  by (simp add: baseline_eval object_eval)

text \<open>
  C8. A suite named \<open>GET /users::list\<close> has the stable id \<open>GET /users::list\<close>, which reads
  as a path-qualified key again. The first upsert stores the suite under its stable id; the
  upsert of a second suite \<open>other\<close> normalises the stored key once more, to \<open>list\<close>; and
  resolving the first suite's key on the updated document finds no entry and falls back to
  the legacy top-level fields, which mirror the second suite: the aggregate returned for the
  first suite is the second suite's.
\<close>

theorem upsert_then_resolve_shadowed_suite:
  "suiteIdFromSuiteKey ''/tmp/a.eval.ts::GET /users::list'' = ''GET /users::list'' \<and>
   suiteIdFromSuiteKey ''/tmp/a.eval.ts::other'' = ''other'' \<and>
   (let doc1 = upsertSuiteBaseline ''t1'' (\<lambda>p. ''a.eval.ts'') ''/tmp/a.eval.ts'' JNull
                 ''/tmp/a.eval.ts::GET /users::list'' [(''score.main.avg'', jsLiteral 0.8)] [];
        doc2 = upsertSuiteBaseline ''t2'' (\<lambda>p. ''a.eval.ts'') ''/tmp/a.eval.ts'' doc1
                 ''/tmp/a.eval.ts::other'' [(''score.main.avg'', jsLiteral 0.2)] []
    in getProp doc1 ''_suites'' =
         JObj [(''GET /users::list'',
                JObj [(''_aggregate'',
                       JObj [(''score.main.avg'', JNum (jsLiteral 0.8))] JObjectPrototype)]
                     JObjectPrototype)]
              JObjectPrototype \<and>
       getProp doc2 ''_suites'' =
         JObj [(''list'',
                JObj [(''_aggregate'',
                       JObj [(''score.main.avg'', JNum (jsLiteral 0.8))] JObjectPrototype)]
                     JObjectPrototype),
               (''other'',
                JObj [(''_aggregate'',
                       JObj [(''score.main.avg'', JNum (jsLiteral 0.2))] JObjectPrototype)]
                     JObjectPrototype)]
              JObjectPrototype \<and>
       resolveSuiteBaseline doc2 ''/tmp/a.eval.ts::GET /users::list'' =
         Inr (JObj [(''_aggregate'',
                     JObj [(''score.main.avg'', JNum (jsLiteral 0.2))] JObjectPrototype)]
                   JObjectPrototype) \<and>
       jsLiteral 0.2 \<noteq> jsLiteral 0.8)"
  unfolding literals by (simp add: baseline_eval object_eval)

section \<open>Baseline path\<close>

lemma replaceEvalExtension_no_match:
  "(\<forall>i. \<not> matchesEvalExtension (drop i s)) \<Longrightarrow> replaceEvalExtension s = s"
proof (induction s)
  case Nil
  then show ?case by simp
next
  case (Cons c r)
  from Cons.prems[rule_format, of 0] have h: "\<not> matchesEvalExtension (c # r)" by simp
  have "\<forall>i. \<not> matchesEvalExtension (drop i r)"
  proof
    fix i from Cons.prems[rule_format, of "Suc i"] show "\<not> matchesEvalExtension (drop i r)" by simp
  qed
  with Cons.IH h show ?case by simp
qed


lemma matchesEvalExtension_append:
  "matchesEvalExtension s \<longleftrightarrow> (\<exists>ext. s = ''.eval.'' @ ext \<and> ext \<noteq> [] \<and> (\<forall>c \<in> set ext. is_word_char c))"
proof
  assume m: "matchesEvalExtension s"
  then obtain r where "s = ''.eval.'' @ r"
    by (auto simp: matchesEvalExtension_def startsWith_append)
  with m show "\<exists>ext. s = ''.eval.'' @ ext \<and> ext \<noteq> [] \<and> (\<forall>c \<in> set ext. is_word_char c)"
    by (auto simp: matchesEvalExtension_def)
next
  assume "\<exists>ext. s = ''.eval.'' @ ext \<and> ext \<noteq> [] \<and> (\<forall>c \<in> set ext. is_word_char c)"
  then show "matchesEvalExtension s"
    by (auto simp: matchesEvalExtension_def startsWith_def)
qed

lemma endsInEvalExtension_drop:
  "endsInEvalExtension s \<longleftrightarrow> (\<exists>i. matchesEvalExtension (drop i s))"
proof
  assume "endsInEvalExtension s"
  then obtain stem ext where s: "s = stem @ ''.eval.'' @ ext" and e: "ext \<noteq> []" "\<forall>c \<in> set ext. is_word_char c"
    unfolding endsInEvalExtension_def by blast
  have "drop (length stem) s = ''.eval.'' @ ext" by (simp add: s)
  with e have "matchesEvalExtension (drop (length stem) s)"
    unfolding matchesEvalExtension_append by blast
  then show "\<exists>i. matchesEvalExtension (drop i s)" ..
next
  assume "\<exists>i. matchesEvalExtension (drop i s)"
  then obtain i ext where d: "drop i s = ''.eval.'' @ ext" and e: "ext \<noteq> []" "\<forall>c \<in> set ext. is_word_char c"
    unfolding matchesEvalExtension_append by blast
  have "s = take i s @ ''.eval.'' @ ext" using d by (metis append_take_drop_id)
  with e show "endsInEvalExtension s" unfolding endsInEvalExtension_def by blast
qed

lemma hasEvalExtension_drop: "hasEvalExtension s \<longleftrightarrow> (\<exists>i. matchesEvalExtension (drop i s))"
proof (induction s)
  case Nil
  then show ?case by (simp add: matchesEvalExtension_def startsWith_def)
next
  case (Cons c r)
  have "(\<exists>i. matchesEvalExtension (drop i (c # r))) \<longleftrightarrow>
        (matchesEvalExtension (c # r) \<or> (\<exists>i. matchesEvalExtension (drop i r)))"
  proof
    assume "\<exists>i. matchesEvalExtension (drop i (c # r))"
    then obtain i where i: "matchesEvalExtension (drop i (c # r))" ..
    then show "matchesEvalExtension (c # r) \<or> (\<exists>i. matchesEvalExtension (drop i r))"
      by (cases i) auto
  next
    assume "matchesEvalExtension (c # r) \<or> (\<exists>i. matchesEvalExtension (drop i r))"
    then show "\<exists>i. matchesEvalExtension (drop i (c # r))"
    proof
      assume "matchesEvalExtension (c # r)"
      then have "matchesEvalExtension (drop 0 (c # r))" by simp
      then show ?thesis ..
    next
      assume "\<exists>i. matchesEvalExtension (drop i r)"
      then obtain i where "matchesEvalExtension (drop (Suc i) (c # r))" by auto
      then show ?thesis ..
    qed
  qed
  with Cons show ?case by simp
qed

lemma endsInEvalExtension_code: "endsInEvalExtension s \<longleftrightarrow> hasEvalExtension s"
  by (simp add: endsInEvalExtension_drop hasEvalExtension_drop)

text \<open>
  C10 (amended). For an eval file path whose base name does not end in
  \<open>.eval.<extension>\<close>, \<open>getBaselinePath\<close> returns the join of the directory and the base
  name of the path, and \<open>saveBaseline\<close> writes the baseline document to the file at that
  path. Where the path is the join of its own directory and base name, that is the path
  itself, and \<open>saveBaseline\<close> writes over the file given.
\<close>

theorem getBaselinePath_without_eval_extension:
  assumes "\<not> endsInEvalExtension (basename p)"
  shows "getBaselinePath dirname basename join p = join (dirname p) (basename p) \<and>
         saveBaseline dirname basename join stringify fs p content
           = fs(join (dirname p) (basename p) \<mapsto> stringify content @ [CHR 0x0A]) \<and>
         (join (dirname p) (basename p) = p \<longrightarrow>
            getBaselinePath dirname basename join p = p \<and>
            saveBaseline dirname basename join stringify fs p content
              = fs(p \<mapsto> stringify content @ [CHR 0x0A]))"
  using assms
  by (simp add: getBaselinePath_def saveBaseline_def replaceEvalExtension_no_match endsInEvalExtension_drop)

theorem getBaselinePath_without_eval_extension_witness:
  "\<not> endsInEvalExtension ''notes.ts'' \<and>
   getBaselinePath (\<lambda>p. ''/tmp/suite'') (\<lambda>p. ''notes.ts'') (\<lambda>d b. if d = ''.'' then b else d @ ''/'' @ b) ''/tmp/suite/notes.ts''
     = ''/tmp/suite/notes.ts'' \<and>
   saveBaseline (\<lambda>p. ''/tmp/suite'') (\<lambda>p. ''notes.ts'') (\<lambda>d b. if d = ''.'' then b else d @ ''/'' @ b) (\<lambda>d. ''{}'')
     [''/tmp/suite/notes.ts'' \<mapsto> ''source''] ''/tmp/suite/notes.ts'' emptyObject
     ''/tmp/suite/notes.ts'' = Some (''{}'' @ [CHR 0x0A])"
proof -
  have h: "\<not> endsInEvalExtension ''notes.ts''"
    unfolding endsInEvalExtension_code
    by (simp add: matchesEvalExtension_def startsWith_def)
  show ?thesis
    using h getBaselinePath_without_eval_extension[of "\<lambda>p. ''notes.ts''" "''/tmp/suite/notes.ts''"
        "\<lambda>p. ''/tmp/suite''" "\<lambda>d b. if d = ''.'' then b else d @ ''/'' @ b" "\<lambda>d. ''{}''" "[''/tmp/suite/notes.ts'' \<mapsto> ''source'']"
        emptyObject]
    by simp
qed

text \<open>
  C10 as stated fails for a path that is not the join of its directory and base name. For
  \<open>./notes.ts\<close> the functions of Node give the directory \<open>.\<close> and the base name
  \<open>notes.ts\<close>, and \<open>join\<close> normalises its result to \<open>notes.ts\<close>: the path returned is
  not the input path. The functions \<open>dirname\<close> and \<open>basename\<close> are given here by their
  values at this input, \<open>join\<close> by its values on a directory and a name without
  separators.
\<close>

theorem getBaselinePath_normalised_counterexample:
  "\<not> endsInEvalExtension ''notes.ts'' \<and>
   getBaselinePath (\<lambda>p. ''.'') (\<lambda>p. ''notes.ts'')
     (\<lambda>d b. if d = ''.'' then b else d @ ''/'' @ b) ''./notes.ts'' = ''notes.ts'' \<and>
   ''notes.ts'' \<noteq> ''./notes.ts''"
proof -
  have h: "\<not> endsInEvalExtension ''notes.ts''"
    unfolding endsInEvalExtension_code
    by (simp add: matchesEvalExtension_def startsWith_def)
  have r: "replaceEvalExtension ''notes.ts'' = ''notes.ts''"
    by (simp add: matchesEvalExtension_def startsWith_def)
  show ?thesis using h by (simp add: getBaselinePath_def r del: replaceEvalExtension.simps)
qed

section \<open>A case that throws\<close>

lemma map_of_insertNew:
  "k \<notin> fst ` set own \<Longrightarrow>
   map_of (insertNew k v own) k' = (if k' = k then Some v else map_of own k')"
proof -
  assume fresh: "k \<notin> fst ` set own"
  let ?P = "\<lambda>(k', v'). comesBefore k' k"
  have split: "map_of own = map_of (dropWhile ?P own) ++ map_of (takeWhile ?P own)"
    by (metis map_of_append takeWhile_dropWhile_id)
  have "k \<notin> fst ` set (takeWhile ?P own)"
    using fresh set_takeWhileD by fastforce
  then have none: "map_of (takeWhile ?P own) k = None"
    by (simp add: map_of_eq_None_iff)
  show ?thesis
  proof (cases "isArrayIndex k")
    case False
    from fresh have "map_of own k = None" by (simp add: map_of_eq_None_iff)
    with False show ?thesis
      by (auto simp: insertNew_def map_add_def split: option.splits)
  next
    case True
    then have "map_of (insertNew k v own) k'
                 = (map_of ((k, v) # dropWhile ?P own) ++ map_of (takeWhile ?P own)) k'"
      by (simp add: insertNew_def)
    also have "\<dots> = (if k' = k then Some v else map_of own k')"
      using none by (auto simp: split map_add_def split: option.splits)
    finally show ?thesis .
  qed
qed

lemma map_of_defineOwn:
  "map_of (defineOwn k v own) k' = (if k' = k then Some v else map_of own k')"
  by (simp add: defineOwn_def map_of_insertNew update_conv')

lemma map_of_assignData:
  "k \<noteq> ''__proto__'' \<Longrightarrow>
   map_of (assignData k v own) k' = (if k' = k then Some v else map_of own k')"
  by (simp add: assignData_def map_of_defineOwn)

lemma record_call_Some:
  "record_call (Some a) call c = c\<lparr>heap := (heap c)[a := applyCall call (heap c ! a)]\<rparr>"
  by (simp add: record_call_def currentEntry_def)

lemma foldl_record_call:
  "a < length (heap c) \<Longrightarrow>
   foldl (\<lambda>c call. record_call (Some a) call c) c calls =
     c\<lparr>heap := (heap c)[a := foldl (\<lambda>e call. applyCall call e) (heap c ! a) calls]\<rparr>"
proof (induction calls arbitrary: c)
  case Nil
  then show ?case by simp
next
  case (Cons call calls)
  let ?c = "record_call (Some a) call c"
  have len: "a < length (heap ?c)" using Cons.prems by (simp add: record_call_Some)
  show ?case
    using Cons.IH[OF len] Cons.prems by (simp add: record_call_Some)
qed

lemma applyCall_identity:
  "suiteKey (applyCall call e) = suiteKey e \<and> suiteName (applyCall call e) = suiteName e \<and>
   testName (applyCall call e) = testName e"
  by (cases call) (simp_all add: Let_def)

lemma foldl_applyCall_identity:
  "suiteKey (foldl (\<lambda>e call. applyCall call e) e calls) = suiteKey e \<and>
   suiteName (foldl (\<lambda>e call. applyCall call e) e calls) = suiteName e \<and>
   testName (foldl (\<lambda>e call. applyCall call e) e calls) = testName e"
  by (induction calls arbitrary: e) (simp_all add: applyCall_identity)

text \<open>
  C9. When the body of a case throws, \<open>runTest\<close> around \<open>measure\<close> returns the same
  exception; the record pushed to the result list when the case began is still there, under
  its own suite and case names, with the metric \<open>error = 1\<close> and the passed flag false,
  whatever the body recorded before it threw.
\<close>

theorem runTest_measure_throwing_body:
  assumes "snd body = Inl err"
  shows "(case runTest k sn tn (measureCase elapsed elapsed' body) c of
            (c', res) \<Rightarrow>
              res = Inl err \<and>
              testResults c' = testResults c @ [length (heap c)] \<and>
              length (heap c) < length (heap c') \<and>
              suiteKey (heap c' ! length (heap c)) = k \<and>
              suiteName (heap c' ! length (heap c)) = sn \<and>
              testName (heap c' ! length (heap c)) = tn \<and>
              map_of (metrics (heap c' ! length (heap c))) ''error'' = Some (Num (Fin 1)) \<and>
              \<not> passed (heap c' ! length (heap c)))"
proof -
  let ?a = "length (heap c)"
  let ?c0 = "c\<lparr>heap := heap c @ [createTestEntry k sn tn], testResults := testResults c @ [?a]\<rparr>"
  let ?e = "foldl (\<lambda>e call. applyCall call e) (createTestEntry k sn tn) (fst body)"
  have a: "?a < length (heap ?c0)" by simp
  have c1: "foldl (\<lambda>c call. record_call (Some ?a) call c) ?c0 (fst body) = ?c0\<lparr>heap := (heap ?c0)[?a := ?e]\<rparr>"
    using foldl_record_call[OF a, of "fst body"] by simp
  have id: "suiteKey ?e = k \<and> suiteName ?e = sn \<and> testName ?e = tn"
    using foldl_applyCall_identity[of "createTestEntry k sn tn" "fst body"]
    by (simp add: createTestEntry_def)
  let ?c1 = "?c0\<lparr>heap := (heap ?c0)[?a := ?e]\<rparr>"
  have m: "measureCase elapsed elapsed' body (Some ?a) ?c0 =
             (recordMetric (Some ?a) ''error'' (Fin 1)
                (recordMetric (Some ?a) ''latency'' elapsed
                   (setTestPassed (Some ?a) False
                      (recordMetric (Some ?a) ''error'' (Fin 1) ?c1))),
              Inl err)"
    unfolding measureCase_def Let_def c1 using assms by simp
  have r: "runTest k sn tn (measureCase elapsed elapsed' body) c =
             measureCase elapsed elapsed' body (Some ?a) ?c0"
    by (simp add: runTest_def runTestEnter_def)
  show ?thesis
    unfolding r m using id
    by (simp add: recordMetric_def setTestPassed_def record_call_Some map_of_assignData)
qed

theorem runTest_measure_throwing_body_witness:
  "(case runTest ''/tmp/a.eval.ts::suite'' ''suite'' ''case 1''
           (measureCase (Fin 12) (Fin 13)
              ([RecordScore ''ExactMatch'' (Fin 1), SetTestPassed True], Inl ''boom'' :: string + nat))
           emptyCollector of
      (c', res) \<Rightarrow>
        res = Inl ''boom'' \<and> testResults c' = [0] \<and>
        map_of (metrics (heap c' ! 0)) ''error'' = Some (Num (Fin 1)) \<and> \<not> passed (heap c' ! 0))"
  using runTest_measure_throwing_body[where body = "([RecordScore ''ExactMatch'' (Fin 1), SetTestPassed True], Inl ''boom'' :: string + nat)"
      and err = "''boom''" and k = "''/tmp/a.eval.ts::suite''" and sn = "''suite''" and tn = "''case 1''"
      and elapsed = "Fin 12" and elapsed' = "Fin 13" and c = emptyCollector]
  by (simp add: emptyCollector_def split: prod.splits)


section \<open>Isolation of concurrent cases\<close>

lemma exec_snoc: "exec (evs @ [ev]) = step (exec evs) ev"
  by (simp add: exec_def)

lemma replay_snoc:
  "replay (eventsOf t (evs @ [ev])) =
     (if eventOf t ev then replayStep (replay (eventsOf t evs)) ev else replay (eventsOf t evs))"
  by (simp add: replay_def eventsOf_def)

lemma step_valid:
  assumes "storesValid s"
  shows "storesValid (step s ev)"
proof -
  obtain c stores where s: "s = (c, stores)" by (cases s)
  show ?thesis
  proof (cases ev)
    case (EnterRunTest t k sn tn)
    with assms s show ?thesis
      by (auto simp: storesValid_def runTestEnter_def less_Suc_eq split: if_splits)
  next
    case (Call t call)
    with assms s show ?thesis
      by (auto simp: storesValid_def record_call_def currentEntry_def split: option.splits)
  next
    case (BeginTest a1 a2 a3)
    with assms s show ?thesis
      by (auto simp: storesValid_def beginTest_def Let_def less_Suc_eq)
  next
    case EndTest
    with assms s show ?thesis
      by (auto simp: storesValid_def endTest_def)
  qed
qed

lemma step_replayed:
  assumes v: "storesValid s" and r: "recordsReplayed evs s"
  shows "recordsReplayed (evs @ [ev]) (step s ev)"
proof -
  obtain c stores where s: "s = (c, stores)" by (cases s)
  from v s have bound: "\<And>t a. stores t = Some a \<Longrightarrow> a < length (heap c)"
    and legacy: "\<And>a t. legacyCurrentEntry c = Some a \<Longrightarrow> stores t \<noteq> Some a"
    and inj: "\<And>t t' a. stores t = Some a \<Longrightarrow> stores t' = Some a \<Longrightarrow> t = t'"
    by (auto simp: storesValid_def)
  from r s have rep: "\<And>t. map_option (\<lambda>a. heap c ! a) (stores t) = replay (eventsOf t evs)"
    by (auto simp: recordsReplayed_def)
  show ?thesis
  proof (cases ev)
    case (EnterRunTest t k sn tn)
    have other: "\<And>t'. map_option (\<lambda>a. (heap c @ [createTestEntry k sn tn]) ! a) (stores t')
                    = replay (eventsOf t' evs)"
    proof -
      fix t'
      show "map_option (\<lambda>a. (heap c @ [createTestEntry k sn tn]) ! a) (stores t') = replay (eventsOf t' evs)"
        using rep[of t'] bound[of t'] by (cases "stores t'") (auto simp: nth_append)
    qed
    show ?thesis
      unfolding recordsReplayed_def s EnterRunTest
      using other by (auto simp: runTestEnter_def replay_snoc)
  next
    case (Call t call)
    show ?thesis
    proof (cases "stores t")
      case None
      have own: "replay (eventsOf t evs) = None" using rep[of t] None by simp
      show ?thesis
      proof (cases "legacyCurrentEntry c")
        case lnone: None
        with None Call s rep own show ?thesis
          by (auto simp: recordsReplayed_def replay_snoc record_call_def currentEntry_def)
      next
        case (Some a)
        have "\<And>t'. map_option (\<lambda>x. (heap c)[a := applyCall call (heap c ! a)] ! x) (stores t')
                  = map_option (\<lambda>x. heap c ! x) (stores t')"
        proof -
          fix t' show "map_option (\<lambda>x. (heap c)[a := applyCall call (heap c ! a)] ! x) (stores t')
                  = map_option (\<lambda>x. heap c ! x) (stores t')"
            using legacy[OF Some, of t'] by (cases "stores t'") auto
        qed
        with None Some Call s rep own show ?thesis
          by (auto simp: recordsReplayed_def replay_snoc record_call_def currentEntry_def)
      qed
    next
      case (Some a)
      have a: "a < length (heap c)" using bound[OF Some] .
      have other: "\<And>t'. t' \<noteq> t \<Longrightarrow>
                map_option (\<lambda>x. (heap c)[a := applyCall call (heap c ! a)] ! x) (stores t')
                  = map_option (\<lambda>x. heap c ! x) (stores t')"
      proof -
        fix t' assume "t' \<noteq> t"
        then show "map_option (\<lambda>x. (heap c)[a := applyCall call (heap c ! a)] ! x) (stores t')
                  = map_option (\<lambda>x. heap c ! x) (stores t')"
        proof (cases "stores t'")
          case None
          then show ?thesis by simp
        next
          case (Some a')
          with inj[OF \<open>stores t = Some a\<close>, of t'] \<open>t' \<noteq> t\<close> have "a' \<noteq> a" by auto
          with Some show ?thesis by simp
        qed
      qed
      have own: "replay (eventsOf t evs) = Some (heap c ! a)" using rep[of t] Some by simp
      show ?thesis
        unfolding recordsReplayed_def s Call
        using Some a other own rep
        by (auto simp: replay_snoc record_call_def currentEntry_def)
    qed
  next
    case (BeginTest a1 a2 a3)
    have "\<And>t. map_option (\<lambda>a. (heap c @ [createTestEntry a1 (if truthyString a3 then a2 else a1) (case a3 of None \<Rightarrow> a2 | Some x \<Rightarrow> x)]) ! a) (stores t)
             = map_option (\<lambda>a. heap c ! a) (stores t)"
    proof -
      fix t show "map_option (\<lambda>a. (heap c @ [createTestEntry a1 (if truthyString a3 then a2 else a1) (case a3 of None \<Rightarrow> a2 | Some x \<Rightarrow> x)]) ! a) (stores t)
             = map_option (\<lambda>a. heap c ! a) (stores t)"
        using bound[of t] by (cases "stores t") (auto simp: nth_append)
    qed
    with BeginTest s rep show ?thesis
      by (simp add: recordsReplayed_def replay_snoc beginTest_def Let_def)
  next
    case EndTest
    with s rep show ?thesis
      by (simp add: recordsReplayed_def replay_snoc endTest_def)
  qed
qed

lemma exec_invariant: "storesValid (exec evs) \<and> recordsReplayed evs (exec evs)"
proof (induction evs rule: rev_induct)
  case Nil
  show ?case
    by (simp add: exec_def storesValid_def recordsReplayed_def emptyCollector_def replay_def eventsOf_def)
next
  case (snoc ev evs)
  then show ?case by (simp add: exec_snoc step_valid step_replayed)
qed

lemma finalRecord_replay: "finalRecord t evs = replay (eventsOf t evs)"
  using exec_invariant[of evs]
  by (cases "exec evs") (auto simp: finalRecord_def recordsReplayed_def)

text \<open>
  C1. In every interleaving of the events of concurrent cases, the final record of a case is
  the replay of the case's own events on a record of its own: recording calls made by
  another case never reach it. Hence two interleavings that agree on the events of a case
  give that case the same final record, whatever the other cases do and in whatever order.
\<close>

theorem runTest_records_isolated:
  "finalRecord a evs = replay (eventsOf a evs) \<and>
   (\<forall>evs'. eventsOf a evs' = eventsOf a evs \<longrightarrow> finalRecord a evs' = finalRecord a evs)"
  by (simp add: finalRecord_replay)

theorem runTest_records_isolated_witness:
  "eventsOf 0 [EnterRunTest 1 ''suite'' ''suite'' ''case-b'', Call 1 (RecordMetric ''value'' (Fin 2)),
               Call 1 (SetTestPassed False), EnterRunTest 0 ''suite'' ''suite'' ''case-a'',
               Call 0 (RecordMetric ''value'' (Fin 1)), Call 0 (RecordScore ''exact'' (Fin 1))]
     = eventsOf 0 [EnterRunTest 0 ''suite'' ''suite'' ''case-a'', Call 0 (RecordMetric ''value'' (Fin 1)),
                   EnterRunTest 1 ''suite'' ''suite'' ''case-b'', Call 1 (RecordMetric ''value'' (Fin 2)),
                   Call 0 (RecordScore ''exact'' (Fin 1)), Call 1 (SetTestPassed False)] \<and>
   finalRecord 0 [EnterRunTest 1 ''suite'' ''suite'' ''case-b'', Call 1 (RecordMetric ''value'' (Fin 2)),
                  Call 1 (SetTestPassed False), EnterRunTest 0 ''suite'' ''suite'' ''case-a'',
                  Call 0 (RecordMetric ''value'' (Fin 1)), Call 0 (RecordScore ''exact'' (Fin 1))]
     = finalRecord 0 [EnterRunTest 0 ''suite'' ''suite'' ''case-a'', Call 0 (RecordMetric ''value'' (Fin 1)),
                      EnterRunTest 1 ''suite'' ''suite'' ''case-b'', Call 1 (RecordMetric ''value'' (Fin 2)),
                      Call 0 (RecordScore ''exact'' (Fin 1)), Call 1 (SetTestPassed False)] \<and>
   finalRecord 0 [EnterRunTest 0 ''suite'' ''suite'' ''case-a'', Call 0 (RecordMetric ''value'' (Fin 1)),
                  EnterRunTest 1 ''suite'' ''suite'' ''case-b'', Call 1 (RecordMetric ''value'' (Fin 2)),
                  Call 0 (RecordScore ''exact'' (Fin 1)), Call 1 (SetTestPassed False)]
     = Some ((createTestEntry ''suite'' ''suite'' ''case-a'')
               \<lparr>metrics := [(''value'', Num (Fin 1)), (''score.exact'', Num (Fin 1))]\<rparr>)"
proof -
  let ?evs = "[EnterRunTest 0 ''suite'' ''suite'' ''case-a'', Call 0 (RecordMetric ''value'' (Fin 1)),
               EnterRunTest 1 ''suite'' ''suite'' ''case-b'', Call 1 (RecordMetric ''value'' (Fin 2)),
               Call 0 (RecordScore ''exact'' (Fin 1)), Call 1 (SetTestPassed False)]"
  let ?evs' = "[EnterRunTest 1 ''suite'' ''suite'' ''case-b'', Call 1 (RecordMetric ''value'' (Fin 2)),
                Call 1 (SetTestPassed False), EnterRunTest 0 ''suite'' ''suite'' ''case-a'',
                Call 0 (RecordMetric ''value'' (Fin 1)), Call 0 (RecordScore ''exact'' (Fin 1))]"
  have same: "eventsOf 0 ?evs' = eventsOf 0 ?evs" by (simp add: eventsOf_def)
  from runTest_records_isolated[of 0 ?evs]
  have own: "finalRecord 0 ?evs = replay (eventsOf 0 ?evs)"
    and any: "\<forall>evs'. eventsOf 0 evs' = eventsOf 0 ?evs \<longrightarrow> finalRecord 0 evs' = finalRecord 0 ?evs"
    by blast+
  from any same have "finalRecord 0 ?evs' = finalRecord 0 ?evs" by blast
  moreover have "replay (eventsOf 0 ?evs)
      = Some ((createTestEntry ''suite'' ''suite'' ''case-a'')
               \<lparr>metrics := [(''value'', Num (Fin 1)), (''score.exact'', Num (Fin 1))]\<rparr>)"
    by (simp add: eventsOf_def replay_def createTestEntry_def assignData_def defineOwn_def
        insertNew_def isArrayIndex_def isDigit_def)
  ultimately show ?thesis using same own by simp
qed

end

